theory Spec2Isabelle
  imports Main "HOL-Library.Word" "HOL-Library.Char_ord" "HOL-Library.List_Lexorder"
begin

section \<open>Data model of \<open>ext/apache2/Configuration.cpp\<close>\<close>

text \<open>
  Modelled from the spec: the declarations of the structs \<open>DirConfig\<close> and
  \<open>ServerConfig\<close> and of the enumerations \<open>Threeway\<close> and \<open>SpawnMethod\<close>, which
  \<open>Configuration.cpp\<close> takes from \<open>Configuration.h\<close>. The fields are the ones the
  code assigns, under the code's names; their types follow the data model of the
  specification and the casts of the code: \<open>(unsigned int) result\<close> for the
  server-scope integers, \<open>(unsigned long) result\<close> for \<open>maxRequests\<close>, a \<open>long\<close>
  for the two spawner timeouts, a nullable \<open>const char *\<close> for the strings,
  \<open>set<string>\<close> for the base URIs. \<open>unsigned int\<close> is 32 bits wide, \<open>long\<close> and
  \<open>unsigned long\<close> are 64 bits wide (LP64).
\<close>

type_synonym uint = "32 word"
type_synonym ulong = "64 word"
type_synonym long = "64 word"

datatype Threeway = ENABLED | DISABLED | UNSET

datatype SpawnMethod = SM_UNSET | SM_SMART | SM_SMART_LV2 | SM_CONSERVATIVE

text \<open>
  A \<open>std::set<string>\<close> is held as the list of its elements in iteration order
  (ascending, without duplicates); \<open>set_insert\<close> is \<open>std::set::insert\<close>, which
  leaves the container alone when the element is already there.
\<close>

fun set_insert :: "string \<Rightarrow> string list \<Rightarrow> string list" where
  "set_insert x [] = [x]"
| "set_insert x (y # ys) =
     (if x = y then y # ys
      else if x < y then x # y # ys
      else y # set_insert x ys)"

record DirConfig =
  enabled :: Threeway
  railsBaseURIs :: "string list"
  rackBaseURIs :: "string list"
  autoDetectRails :: Threeway
  autoDetectRack :: Threeway
  autoDetectWSGI :: Threeway
  allowModRewrite :: Threeway
  railsEnv :: "string option"
  rackEnv :: "string option"
  railsAppRoot :: "string option"
  spawnMethod :: SpawnMethod
  frameworkSpawnerTimeout :: long
  appSpawnerTimeout :: long
  maxRequests :: ulong
  maxRequestsSpecified :: bool
  memoryLimit :: ulong
  memoryLimitSpecified :: bool
  highPerformance :: Threeway
  useGlobalQueue :: Threeway

record ServerConfig =
  ruby :: "string option"
  root :: "string option"
  logLevel :: uint
  maxPoolSize :: uint
  maxPoolSizeSpecified :: bool
  maxInstancesPerApp :: uint
  maxInstancesPerAppSpecified :: bool
  poolIdleTime :: uint
  poolIdleTimeSpecified :: bool
  userSwitching :: bool
  userSwitchingSpecified :: bool
  defaultUser :: "string option"

definition DEFAULT_LOG_LEVEL :: uint where "DEFAULT_LOG_LEVEL = 0"
definition DEFAULT_MAX_POOL_SIZE :: uint where "DEFAULT_MAX_POOL_SIZE = 6"
definition DEFAULT_POOL_IDLE_TIME :: uint where "DEFAULT_POOL_IDLE_TIME = 300"
definition DEFAULT_MAX_INSTANCES_PER_APP :: uint where "DEFAULT_MAX_INSTANCES_PER_APP = 0"

section \<open>Creation and pairwise merge\<close>

text \<open>
  \<open>passenger_config_create_dir\<close>: \<open>new DirConfig()\<close> default-constructs the two
  sets (empty) and leaves \<open>memoryLimit\<close> to the assignments below.
\<close>

definition passenger_config_create_dir :: DirConfig where
  "passenger_config_create_dir =
     \<lparr> enabled = UNSET,
       railsBaseURIs = [],
       rackBaseURIs = [],
       autoDetectRails = UNSET,
       autoDetectRack = UNSET,
       autoDetectWSGI = UNSET,
       allowModRewrite = UNSET,
       railsEnv = None,
       rackEnv = None,
       railsAppRoot = None,
       spawnMethod = SM_UNSET,
       frameworkSpawnerTimeout = - 1,
       appSpawnerTimeout = - 1,
       maxRequests = 0,
       maxRequestsSpecified = False,
       memoryLimit = 0,
       memoryLimitSpecified = False,
       highPerformance = UNSET,
       useGlobalQueue = UNSET \<rparr>"

text \<open>
  The loop \<open>for (it = add->set.begin(); it != add->set.end(); it++) config->set.insert(*it)\<close>
  of \<open>passenger_config_merge_dir\<close>, run on a copy of the base's set.
\<close>

fun insert_all :: "string list \<Rightarrow> string list \<Rightarrow> string list" where
  "insert_all acc [] = acc"
| "insert_all acc (x # xs) = insert_all (set_insert x acc) xs"

definition passenger_config_merge_dir :: "DirConfig \<Rightarrow> DirConfig \<Rightarrow> DirConfig" where
  "passenger_config_merge_dir base add =
     \<lparr> enabled = (if enabled add = UNSET then enabled base else enabled add),
       railsBaseURIs = insert_all (railsBaseURIs base) (railsBaseURIs add),
       rackBaseURIs = insert_all (rackBaseURIs base) (rackBaseURIs add),
       autoDetectRails =
         (if autoDetectRails add = UNSET then autoDetectRails base else autoDetectRails add),
       autoDetectRack =
         (if autoDetectRack add = UNSET then autoDetectRack base else autoDetectRack add),
       autoDetectWSGI =
         (if autoDetectWSGI add = UNSET then autoDetectWSGI base else autoDetectWSGI add),
       allowModRewrite =
         (if allowModRewrite add = UNSET then allowModRewrite base else allowModRewrite add),
       railsEnv = (if railsEnv add = None then railsEnv base else railsEnv add),
       rackEnv = (if rackEnv add = None then rackEnv base else rackEnv add),
       railsAppRoot = (if railsAppRoot add = None then railsAppRoot base else railsAppRoot add),
       spawnMethod = (if spawnMethod add = SM_UNSET then spawnMethod base else spawnMethod add),
       frameworkSpawnerTimeout =
         (if frameworkSpawnerTimeout add = - 1 then frameworkSpawnerTimeout base
          else frameworkSpawnerTimeout add),
       appSpawnerTimeout =
         (if appSpawnerTimeout add = - 1 then appSpawnerTimeout base else appSpawnerTimeout add),
       maxRequests = (if maxRequestsSpecified add then maxRequests add else maxRequests base),
       maxRequestsSpecified = (maxRequestsSpecified base \<or> maxRequestsSpecified add),
       memoryLimit = (if memoryLimitSpecified add then memoryLimit add else memoryLimit base),
       memoryLimitSpecified = (memoryLimitSpecified base \<or> memoryLimitSpecified add),
       highPerformance =
         (if highPerformance add = UNSET then highPerformance base else highPerformance add),
       useGlobalQueue =
         (if useGlobalQueue add = UNSET then useGlobalQueue base else useGlobalQueue add) \<rparr>"

definition passenger_config_create_server :: ServerConfig where
  "passenger_config_create_server =
     \<lparr> ruby = None,
       root = None,
       logLevel = DEFAULT_LOG_LEVEL,
       maxPoolSize = DEFAULT_MAX_POOL_SIZE,
       maxPoolSizeSpecified = False,
       maxInstancesPerApp = DEFAULT_MAX_INSTANCES_PER_APP,
       maxInstancesPerAppSpecified = False,
       poolIdleTime = DEFAULT_POOL_IDLE_TIME,
       poolIdleTimeSpecified = False,
       userSwitching = True,
       userSwitchingSpecified = False,
       defaultUser = None \<rparr>"

text \<open>
  \<open>passenger_config_merge_server\<close>, line by line. An unsigned integer used as a
  condition (\<open>add->logLevel\<close>, \<open>add->poolIdleTime\<close>) is true when it is not zero.
\<close>

definition passenger_config_merge_server :: "ServerConfig \<Rightarrow> ServerConfig \<Rightarrow> ServerConfig" where
  "passenger_config_merge_server base add =
     \<lparr> ruby = (if ruby add = None then ruby base else ruby add),
       root = (if root add = None then root base else root add),
       logLevel = (if logLevel add \<noteq> 0 then logLevel base else logLevel add),
       maxPoolSize = (if maxPoolSizeSpecified add then maxPoolSize base else maxPoolSize add),
       maxPoolSizeSpecified = (maxPoolSizeSpecified base \<or> maxPoolSizeSpecified add),
       maxInstancesPerApp =
         (if maxInstancesPerAppSpecified add then maxInstancesPerApp base
          else maxInstancesPerApp add),
       maxInstancesPerAppSpecified =
         (maxInstancesPerAppSpecified base \<or> maxInstancesPerAppSpecified add),
       poolIdleTime = (if poolIdleTime add \<noteq> 0 then poolIdleTime base else poolIdleTime add),
       poolIdleTimeSpecified = (poolIdleTimeSpecified base \<or> poolIdleTimeSpecified add),
       userSwitching =
         (if userSwitchingSpecified add then userSwitching add else userSwitching base),
       userSwitchingSpecified = (userSwitchingSpecified base \<or> userSwitchingSpecified add),
       defaultUser = (if defaultUser add = None then defaultUser base else defaultUser add) \<rparr>"

text \<open>
  A chain of nested scopes: the host merges the record of each narrower scope onto the
  result for its ancestors, outermost first.
\<close>

fun merge_dir_chain :: "DirConfig \<Rightarrow> DirConfig list \<Rightarrow> DirConfig" where
  "merge_dir_chain base [] = base"
| "merge_dir_chain base (add # adds) = merge_dir_chain (passenger_config_merge_dir base add) adds"

fun merge_server_chain :: "ServerConfig \<Rightarrow> ServerConfig list \<Rightarrow> ServerConfig" where
  "merge_server_chain base [] = base"
| "merge_server_chain base (add # adds) =
     merge_server_chain (passenger_config_merge_server base add) adds"

section \<open>Cross-server normalisation\<close>

text \<open>
  The body of the first loop of \<open>passenger_config_merge_all_servers\<close>. The statements
  run in the source's order, each one reading the accumulator as the statements before
  it left it.
\<close>

definition fold_step :: "ServerConfig \<Rightarrow> ServerConfig \<Rightarrow> ServerConfig" where
  "fold_step final0 config =
     (let final = final0\<lparr>ruby := (if ruby final0 \<noteq> None then ruby final0 else ruby config)\<rparr>;
          final = final\<lparr>root := (if root final \<noteq> None then root final else root config)\<rparr>;
          final = final\<lparr>logLevel :=
                     (if logLevel final \<noteq> 0 then logLevel final else logLevel config)\<rparr>;
          final = final\<lparr>maxPoolSize :=
                     (if maxPoolSizeSpecified final then maxPoolSize final
                      else maxPoolSize config)\<rparr>;
          final = final\<lparr>maxPoolSizeSpecified :=
                     (maxPoolSizeSpecified final \<or> maxPoolSizeSpecified config)\<rparr>;
          final = final\<lparr>maxInstancesPerApp :=
                     (if maxInstancesPerAppSpecified final then maxInstancesPerApp final
                      else maxInstancesPerApp config)\<rparr>;
          final = final\<lparr>maxInstancesPerAppSpecified :=
                     (maxInstancesPerAppSpecified final \<or> maxInstancesPerAppSpecified config)\<rparr>;
          final = final\<lparr>poolIdleTime :=
                     (if poolIdleTimeSpecified final then poolIdleTime final
                      else poolIdleTime config)\<rparr>;
          final = final\<lparr>poolIdleTimeSpecified :=
                     (poolIdleTimeSpecified final \<or> poolIdleTimeSpecified config)\<rparr>;
          final = final\<lparr>userSwitching :=
                     (if userSwitchingSpecified config then userSwitching config
                      else userSwitching final)\<rparr>;
          final = final\<lparr>userSwitchingSpecified :=
                     (userSwitchingSpecified final \<or> userSwitchingSpecified config)\<rparr>;
          final = final\<lparr>defaultUser :=
                     (if defaultUser final \<noteq> None then defaultUser final
                      else defaultUser config)\<rparr>
      in final)"

text \<open>
  The server list \<open>main_server, main_server->next, ...\<close> is the list of the servers'
  module configurations in declaration order. First loop: fold; second loop:
  \<open>*config = *final\<close> for every server.
\<close>

fun fold_servers :: "ServerConfig \<Rightarrow> ServerConfig list \<Rightarrow> ServerConfig" where
  "fold_servers final [] = final"
| "fold_servers final (config # rest) = fold_servers (fold_step final config) rest"

fun broadcast :: "ServerConfig \<Rightarrow> ServerConfig list \<Rightarrow> ServerConfig list" where
  "broadcast final [] = []"
| "broadcast final (config # rest) = final # broadcast final rest"

definition passenger_config_merge_all_servers :: "ServerConfig list \<Rightarrow> ServerConfig list" where
  "passenger_config_merge_all_servers servers =
     broadcast (fold_servers passenger_config_create_server servers) servers"

section \<open>Setter handlers\<close>

subsection \<open>The C library's \<open>strtol\<close> in base 10\<close>

text \<open>
  \<open>strtol(nptr, &end, 10)\<close> after ISO C: skip leading white space (\<open>isspace\<close> in the
  C locale), take an optional sign, then the longest run of decimal digits. With no
  digit there is no conversion: the result is 0 and \<open>end\<close> is \<open>nptr\<close> itself.
  A value outside \<open>long\<close> is replaced by \<open>LONG_MIN\<close> or \<open>LONG_MAX\<close>. The function
  returns the value together with the rest of the string at \<open>end\<close>; the rest is
  empty when \<open>*end == '\0'\<close>.
\<close>

definition isspace :: "char \<Rightarrow> bool" where
  "isspace c = (c = CHR '' '' \<or> c = CHR 0x09 \<or> c = CHR 0x0A \<or> c = CHR 0x0B
                  \<or> c = CHR 0x0C \<or> c = CHR 0x0D)"

definition isdigit :: "char \<Rightarrow> bool" where
  "isdigit c = (48 \<le> (of_char c :: nat) \<and> (of_char c :: nat) \<le> 57)"

definition digit_val :: "char \<Rightarrow> int" where
  "digit_val c = int (of_char c) - 48"

definition LONG_MAX :: int where "LONG_MAX = 2 ^ 63 - 1"
definition LONG_MIN :: int where "LONG_MIN = - (2 ^ 63)"

definition clamp_long :: "int \<Rightarrow> int" where
  "clamp_long v = (if v > LONG_MAX then LONG_MAX else if v < LONG_MIN then LONG_MIN else v)"

fun strtol_digits :: "int \<Rightarrow> string \<Rightarrow> int \<times> string" where
  "strtol_digits acc [] = (acc, [])"
| "strtol_digits acc (c # cs) =
     (if isdigit c then strtol_digits (10 * acc + digit_val c) cs else (acc, c # cs))"

fun strtol_sign :: "string \<Rightarrow> bool \<times> string" where
  "strtol_sign [] = (False, [])"
| "strtol_sign (c # cs) =
     (if c = CHR ''-'' then (True, cs)
      else if c = CHR ''+'' then (False, cs)
      else (False, c # cs))"

definition strtol :: "string \<Rightarrow> int \<times> string" where
  "strtol nptr =
     (case strtol_sign (dropWhile isspace nptr) of
        (neg, s) \<Rightarrow>
          (case s of
             [] \<Rightarrow> (0, nptr)
           | c # cs \<Rightarrow>
               if isdigit c
               then (case strtol_digits 0 s of
                       (v, rest) \<Rightarrow> (clamp_long (if neg then - v else v), rest))
               else (0, nptr)))"

subsection \<open>Passenger settings\<close>

text \<open>
  A handler returns the message (\<open>None\<close> is the \<open>NULL\<close> of success) and the record
  as it leaves it. The server-scope handlers work on the record that
  \<open>ap_get_module_config(cmd->server->module_config, &passenger_module)\<close> gives them,
  the directory-scope handlers on \<open>pcfg\<close>. A flag handler gets its argument as an
  \<open>int\<close>.
\<close>

definition cmd_passenger_root :: "ServerConfig \<Rightarrow> string \<Rightarrow> string option \<times> ServerConfig" where
  "cmd_passenger_root config arg = (None, config\<lparr>root := Some arg\<rparr>)"

definition cmd_passenger_log_level ::
    "ServerConfig \<Rightarrow> string \<Rightarrow> string option \<times> ServerConfig" where
  "cmd_passenger_log_level config arg =
     (case strtol arg of
        (result, endp) \<Rightarrow>
          if endp \<noteq> [] then (Some ''Invalid number specified for PassengerLogLevel.'', config)
          else if result < 0 \<or> result > 9
          then (Some ''Value for PassengerLogLevel must be between 0 and 9.'', config)
          else (None, config\<lparr>logLevel := word_of_int result\<rparr>))"

definition cmd_passenger_ruby :: "ServerConfig \<Rightarrow> string \<Rightarrow> string option \<times> ServerConfig" where
  "cmd_passenger_ruby config arg = (None, config\<lparr>ruby := Some arg\<rparr>)"

definition cmd_passenger_max_pool_size ::
    "ServerConfig \<Rightarrow> string \<Rightarrow> string option \<times> ServerConfig" where
  "cmd_passenger_max_pool_size config arg =
     (case strtol arg of
        (result, endp) \<Rightarrow>
          if endp \<noteq> [] then (Some ''Invalid number specified for PassengerMaxPoolSize.'', config)
          else if result \<le> 0
          then (Some ''Value for PassengerMaxPoolSize must be greater than 0.'', config)
          else (None, config\<lparr>maxPoolSize := word_of_int result,
                              maxPoolSizeSpecified := True\<rparr>))"

definition cmd_passenger_max_instances_per_app ::
    "ServerConfig \<Rightarrow> string \<Rightarrow> string option \<times> ServerConfig" where
  "cmd_passenger_max_instances_per_app config arg =
     (case strtol arg of
        (result, endp) \<Rightarrow>
          if endp \<noteq> []
          then (Some ''Invalid number specified for PassengerMaxInstancesPerApp.'', config)
          else (None, config\<lparr>maxInstancesPerApp := word_of_int result,
                              maxInstancesPerAppSpecified := True\<rparr>))"

definition cmd_passenger_pool_idle_time ::
    "ServerConfig \<Rightarrow> string \<Rightarrow> string option \<times> ServerConfig" where
  "cmd_passenger_pool_idle_time config arg =
     (case strtol arg of
        (result, endp) \<Rightarrow>
          if endp \<noteq> [] then (Some ''Invalid number specified for PassengerPoolIdleTime.'', config)
          else if result \<le> 0
          then (Some ''Value for PassengerPoolIdleTime must be greater than 0.'', config)
          else (None, config\<lparr>poolIdleTime := word_of_int result,
                              poolIdleTimeSpecified := True\<rparr>))"

definition cmd_passenger_use_global_queue ::
    "DirConfig \<Rightarrow> int \<Rightarrow> string option \<times> DirConfig" where
  "cmd_passenger_use_global_queue config arg =
     (if arg \<noteq> 0 then (None, config\<lparr>useGlobalQueue := ENABLED\<rparr>)
      else (None, config\<lparr>useGlobalQueue := DISABLED\<rparr>))"

definition cmd_passenger_user_switching ::
    "ServerConfig \<Rightarrow> int \<Rightarrow> string option \<times> ServerConfig" where
  "cmd_passenger_user_switching config arg =
     (None, config\<lparr>userSwitching := (arg \<noteq> 0), userSwitchingSpecified := True\<rparr>)"

definition cmd_passenger_default_user ::
    "ServerConfig \<Rightarrow> string \<Rightarrow> string option \<times> ServerConfig" where
  "cmd_passenger_default_user config arg = (None, config\<lparr>defaultUser := Some arg\<rparr>)"

definition cmd_passenger_max_requests ::
    "DirConfig \<Rightarrow> string \<Rightarrow> string option \<times> DirConfig" where
  "cmd_passenger_max_requests config arg =
     (case strtol arg of
        (result, endp) \<Rightarrow>
          if endp \<noteq> [] then (Some ''Invalid number specified for PassengerMaxRequests.'', config)
          else if result < 0
          then (Some ''Value for PassengerMaxRequests must be greater than or equal to 0.'',
                config)
          else (None, config\<lparr>maxRequests := word_of_int result,
                              maxRequestsSpecified := True\<rparr>))"

definition cmd_passenger_high_performance ::
    "DirConfig \<Rightarrow> int \<Rightarrow> string option \<times> DirConfig" where
  "cmd_passenger_high_performance config arg =
     (if arg \<noteq> 0 then (None, config\<lparr>highPerformance := ENABLED\<rparr>)
      else (None, config\<lparr>highPerformance := DISABLED\<rparr>))"

definition cmd_passenger_enabled :: "DirConfig \<Rightarrow> int \<Rightarrow> string option \<times> DirConfig" where
  "cmd_passenger_enabled config arg =
     (if arg \<noteq> 0 then (None, config\<lparr>enabled := ENABLED\<rparr>)
      else (None, config\<lparr>enabled := DISABLED\<rparr>))"

subsection \<open>Rails-specific settings\<close>

definition cmd_rails_base_uri :: "DirConfig \<Rightarrow> string \<Rightarrow> string option \<times> DirConfig" where
  "cmd_rails_base_uri config arg =
     (None, config\<lparr>railsBaseURIs := set_insert arg (railsBaseURIs config)\<rparr>)"

definition cmd_rails_auto_detect :: "DirConfig \<Rightarrow> int \<Rightarrow> string option \<times> DirConfig" where
  "cmd_rails_auto_detect config arg =
     (None, config\<lparr>autoDetectRails := (if arg \<noteq> 0 then ENABLED else DISABLED)\<rparr>)"

definition cmd_rails_allow_mod_rewrite ::
    "DirConfig \<Rightarrow> int \<Rightarrow> string option \<times> DirConfig" where
  "cmd_rails_allow_mod_rewrite config arg =
     (None, config\<lparr>allowModRewrite := (if arg \<noteq> 0 then ENABLED else DISABLED)\<rparr>)"

definition cmd_rails_env :: "DirConfig \<Rightarrow> string \<Rightarrow> string option \<times> DirConfig" where
  "cmd_rails_env config arg = (None, config\<lparr>railsEnv := Some arg\<rparr>)"

definition cmd_rails_app_root :: "DirConfig \<Rightarrow> string \<Rightarrow> string option \<times> DirConfig" where
  "cmd_rails_app_root config arg = (None, config\<lparr>railsAppRoot := Some arg\<rparr>)"

definition cmd_rails_spawn_method :: "DirConfig \<Rightarrow> string \<Rightarrow> string option \<times> DirConfig" where
  "cmd_rails_spawn_method config arg =
     (if arg = ''smart'' then (None, config\<lparr>spawnMethod := SM_SMART\<rparr>)
      else if arg = ''smart-lv2'' then (None, config\<lparr>spawnMethod := SM_SMART_LV2\<rparr>)
      else if arg = ''conservative'' then (None, config\<lparr>spawnMethod := SM_CONSERVATIVE\<rparr>)
      else (Some ''RailsSpawnMethod may only be 'smart', 'smart-lv2' or 'conservative'.'',
            config))"

definition cmd_rails_framework_spawner_idle_time ::
    "DirConfig \<Rightarrow> string \<Rightarrow> string option \<times> DirConfig" where
  "cmd_rails_framework_spawner_idle_time config arg =
     (case strtol arg of
        (result, endp) \<Rightarrow>
          if endp \<noteq> []
          then (Some ''Invalid number specified for RailsFrameworkSpawnerIdleTime.'', config)
          else if result < 0
          then (Some ''Value for RailsFrameworkSpawnerIdleTime must be at least 0.'', config)
          else (None, config\<lparr>frameworkSpawnerTimeout := word_of_int result\<rparr>))"

definition cmd_rails_app_spawner_idle_time ::
    "DirConfig \<Rightarrow> string \<Rightarrow> string option \<times> DirConfig" where
  "cmd_rails_app_spawner_idle_time config arg =
     (case strtol arg of
        (result, endp) \<Rightarrow>
          if endp \<noteq> []
          then (Some ''Invalid number specified for RailsAppSpawnerIdleTime.'', config)
          else if result < 0
          then (Some ''Value for RailsAppSpawnerIdleTime must be at least 0.'', config)
          else (None, config\<lparr>appSpawnerTimeout := word_of_int result\<rparr>))"

subsection \<open>Rack- and WSGI-specific settings\<close>

definition cmd_rack_base_uri :: "DirConfig \<Rightarrow> string \<Rightarrow> string option \<times> DirConfig" where
  "cmd_rack_base_uri config arg =
     (None, config\<lparr>rackBaseURIs := set_insert arg (rackBaseURIs config)\<rparr>)"

definition cmd_rack_auto_detect :: "DirConfig \<Rightarrow> int \<Rightarrow> string option \<times> DirConfig" where
  "cmd_rack_auto_detect config arg =
     (None, config\<lparr>autoDetectRack := (if arg \<noteq> 0 then ENABLED else DISABLED)\<rparr>)"

definition cmd_rack_env :: "DirConfig \<Rightarrow> string \<Rightarrow> string option \<times> DirConfig" where
  "cmd_rack_env config arg = (None, config\<lparr>rackEnv := Some arg\<rparr>)"

definition cmd_wsgi_auto_detect :: "DirConfig \<Rightarrow> int \<Rightarrow> string option \<times> DirConfig" where
  "cmd_wsgi_auto_detect config arg =
     (None, config\<lparr>autoDetectWSGI := (if arg \<noteq> 0 then ENABLED else DISABLED)\<rparr>)"

subsection \<open>Obsolete settings\<close>

text \<open>
  \<open>cmd_rails_spawn_server\<close> writes a warning to \<open>stderr\<close> (the list of what has been
  written so far is threaded through) and touches no record.
\<close>

definition cmd_rails_spawn_server ::
    "string list \<Rightarrow> DirConfig \<Rightarrow> string \<Rightarrow> string option \<times> DirConfig \<times> string list" where
  "cmd_rails_spawn_server stderr config arg =
     (None, config,
      stderr @ [''WARNING: The 'RailsSpawnServer' option is obsolete. '' @
                ''Please specify 'PassengerRoot' instead. The correct value was '' @
                ''given to you by 'passenger-install-apache2-module'.''])"

section \<open>The merge rules as the specification words them\<close>

text \<open>
  The rules of the specification, each as a function of the override's and the base's
  values, against which the code's merges are compared.
\<close>

definition tri_merge :: "Threeway \<Rightarrow> Threeway \<Rightarrow> Threeway" where
  "tri_merge base override = (if override = UNSET then base else override)"

definition nullable_merge :: "'a option \<Rightarrow> 'a option \<Rightarrow> 'a option" where
  "nullable_merge base override = (if override = None then base else override)"

definition enum_merge :: "SpawnMethod \<Rightarrow> SpawnMethod \<Rightarrow> SpawnMethod" where
  "enum_merge base override = (if override = SM_UNSET then base else override)"

definition sentinel_merge :: "long \<Rightarrow> long \<Rightarrow> long" where
  "sentinel_merge base override = (if override = - 1 then base else override)"

definition flagged_value :: "bool \<Rightarrow> 'a \<Rightarrow> 'a \<Rightarrow> 'a" where
  "flagged_value override_set override_value base_value =
     (if override_set then override_value else base_value)"

text \<open>The first value of a list of nullable values that is not null.\<close>

fun first_non_null :: "'a option list \<Rightarrow> 'a option" where
  "first_non_null [] = None"
| "first_non_null (v # vs) = (case v of Some x \<Rightarrow> Some x | None \<Rightarrow> first_non_null vs)"

text \<open>
  The fold rule for a flagged value as the specification words it: the current server's
  value wins if the current server has the flag set, else the accumulator's is kept.
\<close>

definition current_wins_if_set :: "bool \<Rightarrow> 'a \<Rightarrow> 'a \<Rightarrow> 'a" where
  "current_wins_if_set current_set current_value accumulator_value =
     (if current_set then current_value else accumulator_value)"

text \<open>
  What the fold computes for a flagged value from an accumulator whose flag is not set:
  the value of the first server that has the flag set and, when no server has, the value
  of the last server of the list (\<open>dflt\<close> for the empty list).
\<close>

definition first_set_or_last ::
    "(ServerConfig \<Rightarrow> bool) \<Rightarrow> (ServerConfig \<Rightarrow> 'a) \<Rightarrow> 'a \<Rightarrow> ServerConfig list \<Rightarrow> 'a" where
  "first_set_or_last flag val dflt servers =
     (case find flag servers of
        Some c \<Rightarrow> val c
      | None \<Rightarrow> if servers = [] then dflt else val (last servers))"

text \<open>The last server of the list that has \<open>userSwitchingSpecified\<close> set, if any.\<close>

definition last_set :: "ServerConfig list \<Rightarrow> ServerConfig option" where
  "last_set servers = find userSwitchingSpecified (rev servers)"

subsection \<open>Decimal strings and atomic outcomes\<close>

text \<open>The number that a string of decimal digits writes.\<close>

definition digits_value :: "string \<Rightarrow> int" where
  "digits_value ds = foldl (\<lambda>a c. 10 * a + digit_val c) 0 ds"

text \<open>
  What the specification asks of the outcome of a setter handler run on \<open>config\<close>:
  on success the record left behind is \<open>config\<close> with nothing but the handler's own
  field (and its explicit-set flag) assigned, which \<open>only_field\<close> expresses by taking
  that field from the record left behind; on failure the message is one of the
  handler's fixed \<open>messages\<close> and the record is \<open>config\<close> itself.
\<close>

definition atomic_outcome ::
    "'c \<Rightarrow> string option \<times> 'c \<Rightarrow> ('c \<Rightarrow> 'c \<Rightarrow> 'c) \<Rightarrow> string set \<Rightarrow> bool" where
  "atomic_outcome config outcome only_field messages =
     (case outcome of
        (None, config') \<Rightarrow> config' = only_field config config'
      | (Some message, config') \<Rightarrow> message \<in> messages \<and> config' = config)"

subsection \<open>Example records\<close>

text \<open>A virtual host after \<open>PassengerMaxPoolSize 10\<close>, \<open>PassengerMaxInstancesPerApp 3\<close>
  and \<open>PassengerPoolIdleTime 60\<close>.\<close>

definition vhost_with_limits :: ServerConfig where
  "vhost_with_limits =
     passenger_config_create_server
       \<lparr> maxPoolSize := 10, maxPoolSizeSpecified := True,
         maxInstancesPerApp := 3, maxInstancesPerAppSpecified := True,
         poolIdleTime := 60, poolIdleTimeSpecified := True \<rparr>"

text \<open>A second virtual host, after \<open>PassengerMaxPoolSize 20\<close>.\<close>

definition vhost_pool_20 :: ServerConfig where
  "vhost_pool_20 =
     passenger_config_create_server \<lparr> maxPoolSize := 20, maxPoolSizeSpecified := True \<rparr>"

text \<open>Server blocks after \<open>PassengerUserSwitching off\<close>, \<open>PassengerUserSwitching on\<close>
  and \<open>PassengerDefaultUser deploy\<close>.\<close>

definition vhost_switching_off :: ServerConfig where
  "vhost_switching_off =
     passenger_config_create_server \<lparr> userSwitching := False, userSwitchingSpecified := True \<rparr>"

definition vhost_switching_on :: ServerConfig where
  "vhost_switching_on =
     passenger_config_create_server \<lparr> userSwitching := True, userSwitchingSpecified := True \<rparr>"

definition vhost_deploy :: ServerConfig where
  "vhost_deploy = passenger_config_create_server \<lparr> defaultUser := Some ''deploy'' \<rparr>"

text \<open>A parent location with \<open>PassengerMaxRequests 100\<close> and \<open>RailsBaseURI /app1\<close>, and
  a child location with \<open>RailsBaseURI /app2\<close> only.\<close>

definition dir_parent :: DirConfig where
  "dir_parent =
     passenger_config_create_dir
       \<lparr> railsBaseURIs := [''/app1''], maxRequests := 100, maxRequestsSpecified := True \<rparr>"

definition dir_child :: DirConfig where
  "dir_child = passenger_config_create_dir \<lparr> railsBaseURIs := [''/app2''] \<rparr>"

text \<open>Records with every explicit-set flag on.\<close>

definition dir_all_flags :: DirConfig where
  "dir_all_flags =
     passenger_config_create_dir
       \<lparr> maxRequests := 100, maxRequestsSpecified := True,
         memoryLimit := 200, memoryLimitSpecified := True \<rparr>"

definition vhost_all_flags :: ServerConfig where
  "vhost_all_flags =
     vhost_with_limits \<lparr> userSwitching := False, userSwitchingSpecified := True \<rparr>"

section \<open>Properties of the pairwise merges\<close>

lemmas default_values =
  DEFAULT_LOG_LEVEL_def DEFAULT_MAX_POOL_SIZE_def DEFAULT_POOL_IDLE_TIME_def
  DEFAULT_MAX_INSTANCES_PER_APP_def

lemma set_set_insert: "set (set_insert x xs) = insert x (set xs)"
  by (induction xs) auto

lemma set_insert_all: "set (insert_all acc xs) = set acc \<union> set xs"
  by (induction xs arbitrary: acc) (auto simp: set_set_insert)

lemma sorted_set_insert: "sorted xs \<Longrightarrow> sorted (set_insert x xs)"
  by (induction xs) (auto simp: set_set_insert)

lemma distinct_set_insert: "sorted xs \<Longrightarrow> distinct xs \<Longrightarrow> distinct (set_insert x xs)"
  by (induction xs) (auto simp: set_set_insert)

lemma insert_all_keeps_order:
  "sorted acc \<Longrightarrow> distinct acc \<Longrightarrow>
     sorted (insert_all acc xs) \<and> distinct (insert_all acc xs)"
  by (induction xs arbitrary: acc) (auto simp: sorted_set_insert distinct_set_insert)

text \<open>
  C1 (server-scope merge, flagged values). The specification asks for
  \<open>resolved.value = override.explicitlySet ? override.value : base.value\<close> for the
  pool size, the per-application instance cap and the idle time. The code has the two
  branches the other way round for the first two, and tests the idle time itself
  instead of its flag: for the default record as base and a virtual host that sets
  all three as override, the merged record holds the base's 6, 0 and 300 where the
  rule gives the override's 10, 3 and 60.
\<close>

theorem merge_server_limits_keep_base:
  "maxPoolSize (passenger_config_merge_server passenger_config_create_server vhost_with_limits) = 6
   \<and> maxInstancesPerApp
        (passenger_config_merge_server passenger_config_create_server vhost_with_limits) = 0
   \<and> poolIdleTime
        (passenger_config_merge_server passenger_config_create_server vhost_with_limits) = 300
   \<and> flagged_value (maxPoolSizeSpecified vhost_with_limits) (maxPoolSize vhost_with_limits)
        (maxPoolSize passenger_config_create_server) = 10
   \<and> flagged_value (maxInstancesPerAppSpecified vhost_with_limits)
        (maxInstancesPerApp vhost_with_limits)
        (maxInstancesPerApp passenger_config_create_server) = 3
   \<and> flagged_value (poolIdleTimeSpecified vhost_with_limits) (poolIdleTime vhost_with_limits)
        (poolIdleTime passenger_config_create_server) = 60"
  by (simp add: passenger_config_merge_server_def passenger_config_create_server_def
      vhost_with_limits_def flagged_value_def default_values)

text \<open>
  C2 (server-scope merge, log level). The merged log level is the base's when the
  override's is not zero, and zero when the override's is zero.
\<close>

theorem merge_server_logLevel:
  "(logLevel add \<noteq> 0 \<longrightarrow>
      logLevel (passenger_config_merge_server base add) = logLevel base)
   \<and> (logLevel add = 0 \<longrightarrow> logLevel (passenger_config_merge_server base add) = 0)"
  by (simp add: passenger_config_merge_server_def)

theorem merge_server_logLevel_witness:
  "logLevel (passenger_config_create_server\<lparr>logLevel := 3\<rparr>) \<noteq> 0
   \<and> logLevel (passenger_config_merge_server (passenger_config_create_server\<lparr>logLevel := 7\<rparr>)
        (passenger_config_create_server\<lparr>logLevel := 3\<rparr>)) = 7
   \<and> logLevel passenger_config_create_server = 0
   \<and> logLevel (passenger_config_merge_server (passenger_config_create_server\<lparr>logLevel := 7\<rparr>)
        passenger_config_create_server) = 0"
  using merge_server_logLevel [of "passenger_config_create_server\<lparr>logLevel := 3\<rparr>"
          "passenger_config_create_server\<lparr>logLevel := 7\<rparr>"]
        merge_server_logLevel [of "passenger_config_create_server"
          "passenger_config_create_server\<lparr>logLevel := 7\<rparr>"]
  by (simp add: passenger_config_create_server_def default_values)

text \<open>
  C3 (directory-scope merge). Every tri-state field follows \<open>tri_merge\<close>, every
  nullable string and the spawn method follow the null/unset rule, the two timeouts
  follow the \<open>-1\<close> rule, the two flagged integers take the override's value exactly
  when the override's flag is set, and each set of base URIs holds the elements of the
  base's and the override's sets together.
\<close>

theorem merge_dir_field_rules:
  "enabled (passenger_config_merge_dir base add) = tri_merge (enabled base) (enabled add)
   \<and> autoDetectRails (passenger_config_merge_dir base add)
       = tri_merge (autoDetectRails base) (autoDetectRails add)
   \<and> autoDetectRack (passenger_config_merge_dir base add)
       = tri_merge (autoDetectRack base) (autoDetectRack add)
   \<and> autoDetectWSGI (passenger_config_merge_dir base add)
       = tri_merge (autoDetectWSGI base) (autoDetectWSGI add)
   \<and> allowModRewrite (passenger_config_merge_dir base add)
       = tri_merge (allowModRewrite base) (allowModRewrite add)
   \<and> highPerformance (passenger_config_merge_dir base add)
       = tri_merge (highPerformance base) (highPerformance add)
   \<and> useGlobalQueue (passenger_config_merge_dir base add)
       = tri_merge (useGlobalQueue base) (useGlobalQueue add)
   \<and> railsEnv (passenger_config_merge_dir base add)
       = nullable_merge (railsEnv base) (railsEnv add)
   \<and> rackEnv (passenger_config_merge_dir base add)
       = nullable_merge (rackEnv base) (rackEnv add)
   \<and> railsAppRoot (passenger_config_merge_dir base add)
       = nullable_merge (railsAppRoot base) (railsAppRoot add)
   \<and> spawnMethod (passenger_config_merge_dir base add)
       = enum_merge (spawnMethod base) (spawnMethod add)
   \<and> frameworkSpawnerTimeout (passenger_config_merge_dir base add)
       = sentinel_merge (frameworkSpawnerTimeout base) (frameworkSpawnerTimeout add)
   \<and> appSpawnerTimeout (passenger_config_merge_dir base add)
       = sentinel_merge (appSpawnerTimeout base) (appSpawnerTimeout add)
   \<and> maxRequests (passenger_config_merge_dir base add)
       = flagged_value (maxRequestsSpecified add) (maxRequests add) (maxRequests base)
   \<and> memoryLimit (passenger_config_merge_dir base add)
       = flagged_value (memoryLimitSpecified add) (memoryLimit add) (memoryLimit base)
   \<and> set (railsBaseURIs (passenger_config_merge_dir base add))
       = set (railsBaseURIs base) \<union> set (railsBaseURIs add)
   \<and> set (rackBaseURIs (passenger_config_merge_dir base add))
       = set (rackBaseURIs base) \<union> set (rackBaseURIs add)"
  by (simp add: passenger_config_merge_dir_def tri_merge_def nullable_merge_def enum_merge_def
      sentinel_merge_def flagged_value_def set_insert_all)

theorem merge_dir_field_rules_witness:
  "maxRequests (passenger_config_merge_dir dir_parent dir_child) = 100
   \<and> enabled (passenger_config_merge_dir dir_parent dir_child) = UNSET
   \<and> railsEnv (passenger_config_merge_dir dir_parent dir_child) = None
   \<and> frameworkSpawnerTimeout (passenger_config_merge_dir dir_parent dir_child) = - 1
   \<and> set (railsBaseURIs (passenger_config_merge_dir dir_parent dir_child))
       = {''/app1'', ''/app2''}"
  using merge_dir_field_rules [of dir_parent dir_child]
  by (auto simp: dir_parent_def dir_child_def passenger_config_create_dir_def tri_merge_def
      nullable_merge_def sentinel_merge_def flagged_value_def)

lemma merge_dir_flags:
  "maxRequestsSpecified (passenger_config_merge_dir base add)
     = (maxRequestsSpecified base \<or> maxRequestsSpecified add)"
  "memoryLimitSpecified (passenger_config_merge_dir base add)
     = (memoryLimitSpecified base \<or> memoryLimitSpecified add)"
  by (simp_all add: passenger_config_merge_dir_def)

lemma merge_server_flags:
  "maxPoolSizeSpecified (passenger_config_merge_server base add)
     = (maxPoolSizeSpecified base \<or> maxPoolSizeSpecified add)"
  "maxInstancesPerAppSpecified (passenger_config_merge_server base add)
     = (maxInstancesPerAppSpecified base \<or> maxInstancesPerAppSpecified add)"
  "poolIdleTimeSpecified (passenger_config_merge_server base add)
     = (poolIdleTimeSpecified base \<or> poolIdleTimeSpecified add)"
  "userSwitchingSpecified (passenger_config_merge_server base add)
     = (userSwitchingSpecified base \<or> userSwitchingSpecified add)"
  by (simp_all add: passenger_config_merge_server_def)

lemma merge_dir_chain_maxRequestsSpecified:
  "maxRequestsSpecified (merge_dir_chain base adds)
     = (maxRequestsSpecified base \<or> (\<exists>a \<in> set adds. maxRequestsSpecified a))"
  by (induction adds arbitrary: base) (auto simp: merge_dir_flags)

lemma merge_dir_chain_memoryLimitSpecified:
  "memoryLimitSpecified (merge_dir_chain base adds)
     = (memoryLimitSpecified base \<or> (\<exists>a \<in> set adds. memoryLimitSpecified a))"
  by (induction adds arbitrary: base) (auto simp: merge_dir_flags)

lemma merge_server_chain_maxPoolSizeSpecified:
  "maxPoolSizeSpecified (merge_server_chain base adds)
     = (maxPoolSizeSpecified base \<or> (\<exists>a \<in> set adds. maxPoolSizeSpecified a))"
  by (induction adds arbitrary: base) (auto simp: merge_server_flags)

lemma merge_server_chain_maxInstancesPerAppSpecified:
  "maxInstancesPerAppSpecified (merge_server_chain base adds)
     = (maxInstancesPerAppSpecified base \<or> (\<exists>a \<in> set adds. maxInstancesPerAppSpecified a))"
  by (induction adds arbitrary: base) (auto simp: merge_server_flags)

lemma merge_server_chain_poolIdleTimeSpecified:
  "poolIdleTimeSpecified (merge_server_chain base adds)
     = (poolIdleTimeSpecified base \<or> (\<exists>a \<in> set adds. poolIdleTimeSpecified a))"
  by (induction adds arbitrary: base) (auto simp: merge_server_flags)

lemma merge_server_chain_userSwitchingSpecified:
  "userSwitchingSpecified (merge_server_chain base adds)
     = (userSwitchingSpecified base \<or> (\<exists>a \<in> set adds. userSwitchingSpecified a))"
  by (induction adds arbitrary: base) (auto simp: merge_server_flags)

text \<open>
  C4 (explicit-set flags are monotonic). For each of the six flagged fields, a flag that
  is true in the base or in the override is true in the merged record, under the
  directory-scope and the server-scope merge; and along a chain of merges, a flag that
  is true in the outermost record or in any of the records merged onto it is true in
  the final result, whatever the other records of the chain hold.
\<close>

theorem explicit_set_flags_monotonic:
  "(maxRequestsSpecified base \<or> maxRequestsSpecified add
      \<longrightarrow> maxRequestsSpecified (passenger_config_merge_dir base add))
   \<and> (memoryLimitSpecified base \<or> memoryLimitSpecified add
      \<longrightarrow> memoryLimitSpecified (passenger_config_merge_dir base add))
   \<and> (maxPoolSizeSpecified sbase \<or> maxPoolSizeSpecified sadd
      \<longrightarrow> maxPoolSizeSpecified (passenger_config_merge_server sbase sadd))
   \<and> (maxInstancesPerAppSpecified sbase \<or> maxInstancesPerAppSpecified sadd
      \<longrightarrow> maxInstancesPerAppSpecified (passenger_config_merge_server sbase sadd))
   \<and> (poolIdleTimeSpecified sbase \<or> poolIdleTimeSpecified sadd
      \<longrightarrow> poolIdleTimeSpecified (passenger_config_merge_server sbase sadd))
   \<and> (userSwitchingSpecified sbase \<or> userSwitchingSpecified sadd
      \<longrightarrow> userSwitchingSpecified (passenger_config_merge_server sbase sadd))
   \<and> (maxRequestsSpecified base \<or> (\<exists>a \<in> set adds. maxRequestsSpecified a)
      \<longrightarrow> maxRequestsSpecified (merge_dir_chain base adds))
   \<and> (memoryLimitSpecified base \<or> (\<exists>a \<in> set adds. memoryLimitSpecified a)
      \<longrightarrow> memoryLimitSpecified (merge_dir_chain base adds))
   \<and> (maxPoolSizeSpecified sbase \<or> (\<exists>a \<in> set sadds. maxPoolSizeSpecified a)
      \<longrightarrow> maxPoolSizeSpecified (merge_server_chain sbase sadds))
   \<and> (maxInstancesPerAppSpecified sbase \<or> (\<exists>a \<in> set sadds. maxInstancesPerAppSpecified a)
      \<longrightarrow> maxInstancesPerAppSpecified (merge_server_chain sbase sadds))
   \<and> (poolIdleTimeSpecified sbase \<or> (\<exists>a \<in> set sadds. poolIdleTimeSpecified a)
      \<longrightarrow> poolIdleTimeSpecified (merge_server_chain sbase sadds))
   \<and> (userSwitchingSpecified sbase \<or> (\<exists>a \<in> set sadds. userSwitchingSpecified a)
      \<longrightarrow> userSwitchingSpecified (merge_server_chain sbase sadds))"
  by (simp only: merge_dir_flags merge_server_flags merge_dir_chain_maxRequestsSpecified
      merge_dir_chain_memoryLimitSpecified merge_server_chain_maxPoolSizeSpecified
      merge_server_chain_maxInstancesPerAppSpecified merge_server_chain_poolIdleTimeSpecified
      merge_server_chain_userSwitchingSpecified) simp

theorem explicit_set_flags_monotonic_witness:
  "maxRequestsSpecified dir_all_flags \<and> memoryLimitSpecified dir_all_flags
   \<and> maxPoolSizeSpecified vhost_all_flags \<and> maxInstancesPerAppSpecified vhost_all_flags
   \<and> poolIdleTimeSpecified vhost_all_flags \<and> userSwitchingSpecified vhost_all_flags
   \<and> maxRequestsSpecified (passenger_config_merge_dir dir_all_flags dir_child)
   \<and> memoryLimitSpecified (passenger_config_merge_dir dir_all_flags dir_child)
   \<and> maxPoolSizeSpecified
        (passenger_config_merge_server vhost_all_flags passenger_config_create_server)
   \<and> maxInstancesPerAppSpecified
        (passenger_config_merge_server vhost_all_flags passenger_config_create_server)
   \<and> poolIdleTimeSpecified
        (passenger_config_merge_server vhost_all_flags passenger_config_create_server)
   \<and> userSwitchingSpecified
        (passenger_config_merge_server vhost_all_flags passenger_config_create_server)
   \<and> maxRequestsSpecified
        (merge_dir_chain dir_all_flags [dir_child, passenger_config_create_dir])
   \<and> memoryLimitSpecified
        (merge_dir_chain dir_all_flags [dir_child, passenger_config_create_dir])
   \<and> maxPoolSizeSpecified
        (merge_server_chain vhost_all_flags [passenger_config_create_server, vhost_deploy])
   \<and> maxInstancesPerAppSpecified
        (merge_server_chain vhost_all_flags [passenger_config_create_server, vhost_deploy])
   \<and> poolIdleTimeSpecified
        (merge_server_chain vhost_all_flags [passenger_config_create_server, vhost_deploy])
   \<and> userSwitchingSpecified
        (merge_server_chain vhost_all_flags [passenger_config_create_server, vhost_deploy])"
  using explicit_set_flags_monotonic [of dir_all_flags dir_child vhost_all_flags
          passenger_config_create_server "[dir_child, passenger_config_create_dir]"
          "[passenger_config_create_server, vhost_deploy]"]
  by (simp add: dir_all_flags_def vhost_all_flags_def vhost_with_limits_def
      passenger_config_create_dir_def passenger_config_create_server_def)

section \<open>Properties of the cross-server normalisation\<close>

lemma fold_step_sel:
  "ruby (fold_step f c) = (if ruby f \<noteq> None then ruby f else ruby c)"
  "root (fold_step f c) = (if root f \<noteq> None then root f else root c)"
  "logLevel (fold_step f c) = (if logLevel f \<noteq> 0 then logLevel f else logLevel c)"
  "maxPoolSize (fold_step f c) = (if maxPoolSizeSpecified f then maxPoolSize f else maxPoolSize c)"
  "maxPoolSizeSpecified (fold_step f c) = (maxPoolSizeSpecified f \<or> maxPoolSizeSpecified c)"
  "maxInstancesPerApp (fold_step f c)
     = (if maxInstancesPerAppSpecified f then maxInstancesPerApp f else maxInstancesPerApp c)"
  "maxInstancesPerAppSpecified (fold_step f c)
     = (maxInstancesPerAppSpecified f \<or> maxInstancesPerAppSpecified c)"
  "poolIdleTime (fold_step f c)
     = (if poolIdleTimeSpecified f then poolIdleTime f else poolIdleTime c)"
  "poolIdleTimeSpecified (fold_step f c) = (poolIdleTimeSpecified f \<or> poolIdleTimeSpecified c)"
  "userSwitching (fold_step f c)
     = (if userSwitchingSpecified c then userSwitching c else userSwitching f)"
  "userSwitchingSpecified (fold_step f c)
     = (userSwitchingSpecified f \<or> userSwitchingSpecified c)"
  "defaultUser (fold_step f c) = (if defaultUser f \<noteq> None then defaultUser f else defaultUser c)"
  by (simp_all add: fold_step_def Let_def)

lemma create_server_sel:
  "ruby passenger_config_create_server = None"
  "root passenger_config_create_server = None"
  "logLevel passenger_config_create_server = 0"
  "maxPoolSize passenger_config_create_server = 6"
  "maxPoolSizeSpecified passenger_config_create_server = False"
  "maxInstancesPerApp passenger_config_create_server = 0"
  "maxInstancesPerAppSpecified passenger_config_create_server = False"
  "poolIdleTime passenger_config_create_server = 300"
  "poolIdleTimeSpecified passenger_config_create_server = False"
  "userSwitching passenger_config_create_server = True"
  "userSwitchingSpecified passenger_config_create_server = False"
  "defaultUser passenger_config_create_server = None"
  by (simp_all add: passenger_config_create_server_def default_values)

lemma fold_servers_flags:
  "maxPoolSizeSpecified (fold_servers f cs)
     = (maxPoolSizeSpecified f \<or> (\<exists>c \<in> set cs. maxPoolSizeSpecified c))"
  "maxInstancesPerAppSpecified (fold_servers f cs)
     = (maxInstancesPerAppSpecified f \<or> (\<exists>c \<in> set cs. maxInstancesPerAppSpecified c))"
  "poolIdleTimeSpecified (fold_servers f cs)
     = (poolIdleTimeSpecified f \<or> (\<exists>c \<in> set cs. poolIdleTimeSpecified c))"
  by (induction cs arbitrary: f; auto simp: fold_step_sel)+

lemma fold_servers_nullable:
  "ruby (fold_servers f cs) = (if ruby f \<noteq> None then ruby f else first_non_null (map ruby cs))"
  "root (fold_servers f cs) = (if root f \<noteq> None then root f else first_non_null (map root cs))"
  "defaultUser (fold_servers f cs)
     = (if defaultUser f \<noteq> None then defaultUser f else first_non_null (map defaultUser cs))"
  by (induction cs arbitrary: f; auto simp: fold_step_sel split: option.splits)+

lemma fold_servers_flagged_values:
  "maxPoolSize (fold_servers f cs)
     = (if maxPoolSizeSpecified f then maxPoolSize f
        else first_set_or_last maxPoolSizeSpecified maxPoolSize (maxPoolSize f) cs)"
  "maxInstancesPerApp (fold_servers f cs)
     = (if maxInstancesPerAppSpecified f then maxInstancesPerApp f
        else first_set_or_last maxInstancesPerAppSpecified maxInstancesPerApp
               (maxInstancesPerApp f) cs)"
  "poolIdleTime (fold_servers f cs)
     = (if poolIdleTimeSpecified f then poolIdleTime f
        else first_set_or_last poolIdleTimeSpecified poolIdleTime (poolIdleTime f) cs)"
  by (induction cs arbitrary: f;
      auto simp: fold_step_sel first_set_or_last_def split: option.splits)+

lemma find_app:
  "find P (xs @ ys) = (case find P xs of Some x \<Rightarrow> Some x | None \<Rightarrow> find P ys)"
  by (induction xs) auto

lemma fold_servers_userSwitching:
  "userSwitching (fold_servers f cs)
     = (case last_set cs of Some c \<Rightarrow> userSwitching c | None \<Rightarrow> userSwitching f)"
  by (induction cs arbitrary: f)
     (auto simp: fold_step_sel last_set_def find_app split: option.splits)

lemma broadcast_replicate: "broadcast f cs = replicate (length cs) f"
  by (induction cs) auto

text \<open>
  C5 as the specification words it fails: with two servers that both set the pool size,
  10 and then 20, the fold leaves 10 in the accumulator, where ``the current server's
  value wins if currently set'' gives 20 at the second server.
\<close>

theorem fold_current_wins_counterexample:
  "maxPoolSize (fold_servers passenger_config_create_server [vhost_with_limits, vhost_pool_20])
     = 10
   \<and> current_wins_if_set (maxPoolSizeSpecified vhost_pool_20) (maxPoolSize vhost_pool_20)
        (maxPoolSize (fold_servers passenger_config_create_server [vhost_with_limits])) = 20
   \<and> maxPoolSize (fold_step (fold_servers passenger_config_create_server [vhost_with_limits])
                     vhost_pool_20)
       \<noteq> current_wins_if_set (maxPoolSizeSpecified vhost_pool_20) (maxPoolSize vhost_pool_20)
            (maxPoolSize (fold_servers passenger_config_create_server [vhost_with_limits]))"
  by (simp add: fold_step_sel create_server_sel current_wins_if_set_def vhost_with_limits_def
      vhost_pool_20_def)

text \<open>
  C5, amended. In the fold pass each of the three flagged values keeps the accumulator's
  value when the accumulator's flag is already set and takes the current server's value
  otherwise, and each flag is OR-ed with the current server's flag. Over a whole list,
  starting from the default record: a flag ends up true exactly when some server of the
  list has it, and the value is that of the first server with the flag set (with no such
  server, that of the last server; the default for the empty list).
\<close>

theorem fold_flagged_first_set_wins:
  "maxPoolSize (fold_step final config)
     = (if maxPoolSizeSpecified final then maxPoolSize final else maxPoolSize config)
   \<and> maxInstancesPerApp (fold_step final config)
     = (if maxInstancesPerAppSpecified final then maxInstancesPerApp final
        else maxInstancesPerApp config)
   \<and> poolIdleTime (fold_step final config)
     = (if poolIdleTimeSpecified final then poolIdleTime final else poolIdleTime config)
   \<and> maxPoolSizeSpecified (fold_step final config)
     = (maxPoolSizeSpecified final \<or> maxPoolSizeSpecified config)
   \<and> maxInstancesPerAppSpecified (fold_step final config)
     = (maxInstancesPerAppSpecified final \<or> maxInstancesPerAppSpecified config)
   \<and> poolIdleTimeSpecified (fold_step final config)
     = (poolIdleTimeSpecified final \<or> poolIdleTimeSpecified config)
   \<and> maxPoolSizeSpecified (fold_servers passenger_config_create_server servers)
     = (\<exists>c \<in> set servers. maxPoolSizeSpecified c)
   \<and> maxInstancesPerAppSpecified (fold_servers passenger_config_create_server servers)
     = (\<exists>c \<in> set servers. maxInstancesPerAppSpecified c)
   \<and> poolIdleTimeSpecified (fold_servers passenger_config_create_server servers)
     = (\<exists>c \<in> set servers. poolIdleTimeSpecified c)
   \<and> maxPoolSize (fold_servers passenger_config_create_server servers)
     = first_set_or_last maxPoolSizeSpecified maxPoolSize DEFAULT_MAX_POOL_SIZE servers
   \<and> maxInstancesPerApp (fold_servers passenger_config_create_server servers)
     = first_set_or_last maxInstancesPerAppSpecified maxInstancesPerApp
         DEFAULT_MAX_INSTANCES_PER_APP servers
   \<and> poolIdleTime (fold_servers passenger_config_create_server servers)
     = first_set_or_last poolIdleTimeSpecified poolIdleTime DEFAULT_POOL_IDLE_TIME servers"
  by (simp add: fold_step_sel fold_servers_flags fold_servers_flagged_values create_server_sel
      default_values)

theorem fold_flagged_first_set_wins_witness:
  "maxPoolSize (fold_step vhost_with_limits vhost_pool_20) = 10
   \<and> maxPoolSize (fold_step passenger_config_create_server vhost_pool_20) = 20
   \<and> maxPoolSizeSpecified (fold_step passenger_config_create_server vhost_pool_20)
   \<and> maxPoolSizeSpecified
        (fold_servers passenger_config_create_server
           [passenger_config_create_server, vhost_with_limits, vhost_pool_20])
   \<and> maxPoolSize
        (fold_servers passenger_config_create_server
           [passenger_config_create_server, vhost_with_limits, vhost_pool_20]) = 10
   \<and> poolIdleTime
        (fold_servers passenger_config_create_server
           [passenger_config_create_server, vhost_with_limits, vhost_pool_20]) = 60"
  using fold_flagged_first_set_wins [of vhost_with_limits vhost_pool_20
          "[passenger_config_create_server, vhost_with_limits, vhost_pool_20]"]
        fold_flagged_first_set_wins [of passenger_config_create_server vhost_pool_20 "[]"]
  by (simp add: first_set_or_last_def create_server_sel vhost_with_limits_def vhost_pool_20_def)

text \<open>
  C6 (user switching in the fold). The folded \<open>userSwitching\<close> is that of the last
  server of the list that has \<open>userSwitchingSpecified\<close> set (the default \<open>true\<close> when
  no server has). With three servers of which the first sets it to false and the third
  sets it to true, every record reports true after the normalisation, whatever the
  second server holds.
\<close>

theorem fold_user_switching_last_wins:
  "userSwitching (fold_servers passenger_config_create_server servers)
     = (case last_set servers of Some c \<Rightarrow> userSwitching c | None \<Rightarrow> True)
   \<and> (userSwitchingSpecified s1 \<and> \<not> userSwitching s1
        \<and> userSwitchingSpecified s3 \<and> userSwitching s3
      \<longrightarrow> map userSwitching (passenger_config_merge_all_servers [s1, s2, s3])
            = [True, True, True])"
  by (simp add: fold_servers_userSwitching passenger_config_merge_all_servers_def
      fold_step_sel create_server_sel split: option.splits)

theorem fold_user_switching_last_wins_witness:
  "userSwitchingSpecified vhost_switching_off \<and> \<not> userSwitching vhost_switching_off
   \<and> userSwitchingSpecified vhost_switching_on \<and> userSwitching vhost_switching_on
   \<and> map userSwitching
        (passenger_config_merge_all_servers
           [vhost_switching_off, passenger_config_create_server, vhost_switching_on])
       = [True, True, True]
   \<and> last_set [vhost_switching_on, vhost_switching_off, passenger_config_create_server]
       = Some vhost_switching_off
   \<and> userSwitching
        (fold_servers passenger_config_create_server
           [vhost_switching_on, vhost_switching_off, passenger_config_create_server]) = False"
  using fold_user_switching_last_wins [of
          "[vhost_switching_on, vhost_switching_off, passenger_config_create_server]"
          vhost_switching_off vhost_switching_on passenger_config_create_server]
  by (simp add: last_set_def create_server_sel vhost_switching_off_def vhost_switching_on_def)

lemma merge_all_servers_replicate:
  "passenger_config_merge_all_servers servers
     = replicate (length servers) (fold_servers passenger_config_create_server servers)"
  by (simp add: passenger_config_merge_all_servers_def broadcast_replicate)

lemma fold_servers_default_nullable:
  "ruby (fold_servers passenger_config_create_server servers) = first_non_null (map ruby servers)"
  "root (fold_servers passenger_config_create_server servers) = first_non_null (map root servers)"
  "defaultUser (fold_servers passenger_config_create_server servers)
     = first_non_null (map defaultUser servers)"
  by (simp_all add: fold_servers_nullable create_server_sel)

text \<open>
  C7 (broadcast). On a non-empty server list every record of the result is the folded
  accumulator, whose nullable strings are the first non-null ones of the list. With
  three servers of which only the second has a default user, \<open>deploy\<close>, all three
  records report \<open>deploy\<close>.
\<close>

theorem merge_all_servers_broadcast:
  "(servers \<noteq> [] \<longrightarrow>
     passenger_config_merge_all_servers servers
       = replicate (length servers) (fold_servers passenger_config_create_server servers)
     \<and> (\<forall>c \<in> set (passenger_config_merge_all_servers servers).
           c = fold_servers passenger_config_create_server servers
           \<and> ruby c = first_non_null (map ruby servers)
           \<and> root c = first_non_null (map root servers)
           \<and> defaultUser c = first_non_null (map defaultUser servers)))
   \<and> (defaultUser s1 = None \<and> defaultUser s2 = Some ''deploy'' \<and> defaultUser s3 = None
      \<longrightarrow> map defaultUser (passenger_config_merge_all_servers [s1, s2, s3])
            = [Some ''deploy'', Some ''deploy'', Some ''deploy''])"
proof (intro conjI impI)
  show "passenger_config_merge_all_servers servers
       = replicate (length servers) (fold_servers passenger_config_create_server servers)"
    by (rule merge_all_servers_replicate)
  show "\<forall>c \<in> set (passenger_config_merge_all_servers servers).
           c = fold_servers passenger_config_create_server servers
           \<and> ruby c = first_non_null (map ruby servers)
           \<and> root c = first_non_null (map root servers)
           \<and> defaultUser c = first_non_null (map defaultUser servers)"
    by (simp add: merge_all_servers_replicate fold_servers_default_nullable)
  assume a: "defaultUser s1 = None \<and> defaultUser s2 = Some ''deploy'' \<and> defaultUser s3 = None"
  have "defaultUser (fold_servers passenger_config_create_server [s1, s2, s3]) = Some ''deploy''"
    using a by (simp only: fold_servers_default_nullable) simp
  then show "map defaultUser (passenger_config_merge_all_servers [s1, s2, s3])
            = [Some ''deploy'', Some ''deploy'', Some ''deploy'']"
    by (simp only: merge_all_servers_replicate) (simp add: numeral_3_eq_3)
qed

theorem merge_all_servers_broadcast_witness:
  "[passenger_config_create_server, vhost_deploy, passenger_config_create_server] \<noteq> []
   \<and> defaultUser passenger_config_create_server = None
   \<and> defaultUser vhost_deploy = Some ''deploy''
   \<and> map defaultUser
        (passenger_config_merge_all_servers
           [passenger_config_create_server, vhost_deploy, passenger_config_create_server])
       = [Some ''deploy'', Some ''deploy'', Some ''deploy'']
   \<and> passenger_config_merge_all_servers
        [passenger_config_create_server, vhost_deploy, passenger_config_create_server]
       = replicate
           (length [passenger_config_create_server, vhost_deploy, passenger_config_create_server])
           (fold_servers passenger_config_create_server
              [passenger_config_create_server, vhost_deploy, passenger_config_create_server])"
proof -
  have ne: "[passenger_config_create_server, vhost_deploy, passenger_config_create_server] \<noteq> []"
    by simp
  have d1: "defaultUser passenger_config_create_server = None"
    by (simp add: create_server_sel)
  have d2: "defaultUser vhost_deploy = Some ''deploy''"
    by (simp add: vhost_deploy_def)
  note w = merge_all_servers_broadcast [of
          "[passenger_config_create_server, vhost_deploy, passenger_config_create_server]"
          passenger_config_create_server vhost_deploy passenger_config_create_server]
  from w d1 d2 have p1: "map defaultUser
        (passenger_config_merge_all_servers
           [passenger_config_create_server, vhost_deploy, passenger_config_create_server])
       = [Some ''deploy'', Some ''deploy'', Some ''deploy'']"
    by blast
  from w ne have p2: "passenger_config_merge_all_servers
        [passenger_config_create_server, vhost_deploy, passenger_config_create_server]
       = replicate
           (length [passenger_config_create_server, vhost_deploy, passenger_config_create_server])
           (fold_servers passenger_config_create_server
              [passenger_config_create_server, vhost_deploy, passenger_config_create_server])"
    by blast
  from ne d1 d2 p1 p2 show ?thesis by (intro conjI)
qed

section \<open>Properties of the setter handlers\<close>


lemmas strtol_eval =
  strtol_def isspace_def isdigit_def digit_val_def clamp_long_def LONG_MAX_def LONG_MIN_def

lemma strtol_digits_all:
  "list_all isdigit ds \<Longrightarrow>
     strtol_digits acc ds = (foldl (\<lambda>a c. 10 * a + digit_val c) acc ds, [])"
  by (induction ds arbitrary: acc) auto

lemma strtol_digits_stop:
  "list_all isdigit ds \<Longrightarrow> \<not> isdigit c \<Longrightarrow>
     strtol_digits acc (ds @ c # rest)
       = (foldl (\<lambda>a c. 10 * a + digit_val c) acc ds, c # rest)"
  by (induction ds arbitrary: acc) auto

lemma isdigit_not_space: "isdigit c \<Longrightarrow> \<not> isspace c"
  by (auto simp: isdigit_def isspace_def)

lemma isdigit_not_sign: "isdigit c \<Longrightarrow> c \<noteq> CHR ''-'' \<and> c \<noteq> CHR ''+''"
  by (auto simp: isdigit_def)

lemma digit_val_nonneg: "isdigit c \<Longrightarrow> 0 \<le> digit_val c"
  by (simp add: isdigit_def digit_val_def)

lemma foldl_digits_nonneg:
  "list_all isdigit ds \<Longrightarrow> 0 \<le> acc \<Longrightarrow> 0 \<le> foldl (\<lambda>a c. 10 * a + digit_val c) acc ds"
  by (induction ds arbitrary: acc) (auto simp: digit_val_nonneg)

lemma digits_value_nonneg: "list_all isdigit ds \<Longrightarrow> 0 \<le> digits_value ds"
  by (simp add: digits_value_def foldl_digits_nonneg)

lemma strtol_digit_string:
  assumes "ds \<noteq> []" "list_all isdigit ds"
  shows "strtol ds = (clamp_long (digits_value ds), [])"
proof -
  obtain d ds' where ds: "ds = d # ds'" using assms(1) by (cases ds) auto
  with assms(2) have d: "isdigit d" by simp
  have "dropWhile isspace ds = ds" using d ds by (simp add: isdigit_not_space)
  moreover have "strtol_sign ds = (False, ds)" using d ds isdigit_not_sign[of d] by simp
  ultimately show ?thesis
    using d ds strtol_digits_all[OF assms(2), of 0]
    by (simp add: strtol_def digits_value_def)
qed

lemma strtol_negative_digit_string:
  assumes "ds \<noteq> []" "list_all isdigit ds"
  shows "strtol (CHR ''-'' # ds) = (clamp_long (- digits_value ds), [])"
proof -
  obtain d ds' where ds: "ds = d # ds'" using assms(1) by (cases ds) auto
  with assms(2) have d: "isdigit d" by simp
  have "dropWhile isspace (CHR ''-'' # ds) = CHR ''-'' # ds" by (simp add: isspace_def)
  moreover have "strtol_sign (CHR ''-'' # ds) = (True, ds)" by simp
  ultimately show ?thesis
    using d ds strtol_digits_all[OF assms(2), of 0]
    by (simp add: strtol_def digits_value_def)
qed

lemma strtol_trailing:
  assumes "ds \<noteq> []" "list_all isdigit ds" "\<not> isdigit c"
  shows "snd (strtol (ds @ c # rest)) = c # rest"
proof -
  obtain d ds' where ds: "ds = d # ds'" using assms(1) by (cases ds) auto
  with assms(2) have d: "isdigit d" by simp
  have "dropWhile isspace (ds @ c # rest) = ds @ c # rest"
    using d ds by (simp add: isdigit_not_space)
  moreover have "strtol_sign (ds @ c # rest) = (False, ds @ c # rest)"
    using d ds isdigit_not_sign[of d] by simp
  ultimately show ?thesis
    using d ds strtol_digits_stop[OF assms(2,3), of 0 rest]
    by (simp add: strtol_def)
qed

lemma clamp_long_bounds:
  "(clamp_long v \<le> 9) = (v \<le> 9)"
  "(0 < clamp_long v) = (0 < v)"
  "(clamp_long v < 0) = (v < 0)"
  "(clamp_long v \<le> 0) = (v \<le> 0)"
  "(0 \<le> clamp_long v) = (0 \<le> v)"
  by (auto simp: clamp_long_def LONG_MAX_def LONG_MIN_def)

lemma strtol_examples:
  "strtol ''5x'' = (5, ''x'')"
  "strtol '' -12'' = (- 12, [])"
  "strtol ''+7'' = (7, [])"
  "strtol ''99999999999999999999'' = (9223372036854775807, [])"
  "strtol ''-'' = (0, ''-'')"
  "strtol ''  '' = (0, ''  '')"
  "strtol [] = (0, [])"
  by (simp_all add: strtol_eval)

lemma log_level_cases:
  "cmd_passenger_log_level cfg arg =
     (if snd (strtol arg) \<noteq> []
      then (Some ''Invalid number specified for PassengerLogLevel.'', cfg)
      else if fst (strtol arg) < 0 \<or> fst (strtol arg) > 9
      then (Some ''Value for PassengerLogLevel must be between 0 and 9.'', cfg)
      else (None, cfg\<lparr>logLevel := word_of_int (fst (strtol arg))\<rparr>))"
  by (simp add: cmd_passenger_log_level_def split: prod.splits)

lemma max_pool_size_cases:
  "cmd_passenger_max_pool_size cfg arg =
     (if snd (strtol arg) \<noteq> []
      then (Some ''Invalid number specified for PassengerMaxPoolSize.'', cfg)
      else if fst (strtol arg) \<le> 0
      then (Some ''Value for PassengerMaxPoolSize must be greater than 0.'', cfg)
      else (None, cfg\<lparr>maxPoolSize := word_of_int (fst (strtol arg)),
                       maxPoolSizeSpecified := True\<rparr>))"
  by (simp add: cmd_passenger_max_pool_size_def split: prod.splits)

lemma pool_idle_time_cases:
  "cmd_passenger_pool_idle_time cfg arg =
     (if snd (strtol arg) \<noteq> []
      then (Some ''Invalid number specified for PassengerPoolIdleTime.'', cfg)
      else if fst (strtol arg) \<le> 0
      then (Some ''Value for PassengerPoolIdleTime must be greater than 0.'', cfg)
      else (None, cfg\<lparr>poolIdleTime := word_of_int (fst (strtol arg)),
                       poolIdleTimeSpecified := True\<rparr>))"
  by (simp add: cmd_passenger_pool_idle_time_def split: prod.splits)

lemma max_instances_per_app_cases:
  "cmd_passenger_max_instances_per_app cfg arg =
     (if snd (strtol arg) \<noteq> []
      then (Some ''Invalid number specified for PassengerMaxInstancesPerApp.'', cfg)
      else (None, cfg\<lparr>maxInstancesPerApp := word_of_int (fst (strtol arg)),
                       maxInstancesPerAppSpecified := True\<rparr>))"
  by (simp add: cmd_passenger_max_instances_per_app_def split: prod.splits)

lemma setters_boundary_values:
  "cmd_passenger_log_level cfg ''0'' = (None, cfg\<lparr>logLevel := 0\<rparr>)"
  "cmd_passenger_log_level cfg ''9'' = (None, cfg\<lparr>logLevel := 9\<rparr>)"
  "cmd_passenger_log_level cfg ''-1''
     = (Some ''Value for PassengerLogLevel must be between 0 and 9.'', cfg)"
  "cmd_passenger_log_level cfg ''10''
     = (Some ''Value for PassengerLogLevel must be between 0 and 9.'', cfg)"
  "cmd_passenger_log_level cfg ''5x''
     = (Some ''Invalid number specified for PassengerLogLevel.'', cfg)"
  "cmd_passenger_max_pool_size cfg ''0''
     = (Some ''Value for PassengerMaxPoolSize must be greater than 0.'', cfg)"
  "cmd_passenger_max_pool_size cfg ''1''
     = (None, cfg\<lparr>maxPoolSize := 1, maxPoolSizeSpecified := True\<rparr>)"
  "cmd_passenger_pool_idle_time cfg ''0''
     = (Some ''Value for PassengerPoolIdleTime must be greater than 0.'', cfg)"
  "cmd_passenger_pool_idle_time cfg ''1''
     = (None, cfg\<lparr>poolIdleTime := 1, poolIdleTimeSpecified := True\<rparr>)"
  by (simp_all add: cmd_passenger_log_level_def cmd_passenger_max_pool_size_def
      cmd_passenger_pool_idle_time_def strtol_eval)

lemma setters_success_iff:
  "(fst (cmd_passenger_log_level cfg arg) = None)
     = (snd (strtol arg) = [] \<and> 0 \<le> fst (strtol arg) \<and> fst (strtol arg) \<le> 9)"
  "(fst (cmd_passenger_max_pool_size cfg arg) = None)
     = (snd (strtol arg) = [] \<and> 0 < fst (strtol arg))"
  "(fst (cmd_passenger_pool_idle_time cfg arg) = None)
     = (snd (strtol arg) = [] \<and> 0 < fst (strtol arg))"
  by (auto simp: log_level_cases max_pool_size_cases pool_idle_time_cases)

lemma setters_failure_message:
  "fst (cmd_passenger_log_level cfg arg)
     \<in> {None, Some ''Invalid number specified for PassengerLogLevel.'',
         Some ''Value for PassengerLogLevel must be between 0 and 9.''}"
  "fst (cmd_passenger_max_pool_size cfg arg)
     \<in> {None, Some ''Invalid number specified for PassengerMaxPoolSize.'',
         Some ''Value for PassengerMaxPoolSize must be greater than 0.''}"
  "fst (cmd_passenger_pool_idle_time cfg arg)
     \<in> {None, Some ''Invalid number specified for PassengerPoolIdleTime.'',
         Some ''Value for PassengerPoolIdleTime must be greater than 0.''}"
  by (simp_all add: log_level_cases max_pool_size_cases pool_idle_time_cases)

lemma setters_on_digits:
  assumes "ds \<noteq> []" "list_all isdigit ds"
  shows "(fst (cmd_passenger_log_level cfg ds) = None) = (digits_value ds \<le> 9)"
    and "(fst (cmd_passenger_max_pool_size cfg ds) = None) = (0 < digits_value ds)"
    and "(fst (cmd_passenger_pool_idle_time cfg ds) = None) = (0 < digits_value ds)"
  using digits_value_nonneg[OF assms(2)]
  by (auto simp: setters_success_iff strtol_digit_string[OF assms] clamp_long_bounds)

lemma setters_on_negative_digits:
  assumes "ds \<noteq> []" "list_all isdigit ds"
  shows "(fst (cmd_passenger_log_level cfg (CHR ''-'' # ds)) = None) = (digits_value ds = 0)"
    and "fst (cmd_passenger_max_pool_size cfg (CHR ''-'' # ds))
          = Some ''Value for PassengerMaxPoolSize must be greater than 0.''"
    and "fst (cmd_passenger_pool_idle_time cfg (CHR ''-'' # ds))
          = Some ''Value for PassengerPoolIdleTime must be greater than 0.''"
proof -
  have nn: "0 \<le> digits_value ds" by (rule digits_value_nonneg[OF assms(2)])
  have le: "clamp_long (- digits_value ds) \<le> 0" using nn by (simp add: clamp_long_bounds)
  have ge: "(0 \<le> clamp_long (- digits_value ds)) = (digits_value ds = 0)"
    using nn by (auto simp: clamp_long_bounds)
  show "(fst (cmd_passenger_log_level cfg (CHR ''-'' # ds)) = None) = (digits_value ds = 0)"
    using le ge by (auto simp: setters_success_iff strtol_negative_digit_string[OF assms])
  show "fst (cmd_passenger_max_pool_size cfg (CHR ''-'' # ds))
          = Some ''Value for PassengerMaxPoolSize must be greater than 0.''"
    using le by (simp add: max_pool_size_cases strtol_negative_digit_string[OF assms])
  show "fst (cmd_passenger_pool_idle_time cfg (CHR ''-'' # ds))
          = Some ''Value for PassengerPoolIdleTime must be greater than 0.''"
    using le by (simp add: pool_idle_time_cases strtol_negative_digit_string[OF assms])
qed

lemma setters_on_trailing:
  assumes "ds \<noteq> []" "list_all isdigit ds" "\<not> isdigit c"
  shows "cmd_passenger_log_level cfg (ds @ c # rest)
           = (Some ''Invalid number specified for PassengerLogLevel.'', cfg)"
    and "cmd_passenger_max_pool_size cfg (ds @ c # rest)
           = (Some ''Invalid number specified for PassengerMaxPoolSize.'', cfg)"
    and "cmd_passenger_pool_idle_time cfg (ds @ c # rest)
           = (Some ''Invalid number specified for PassengerPoolIdleTime.'', cfg)"
  by (simp_all add: log_level_cases max_pool_size_cases pool_idle_time_cases
      strtol_trailing[OF assms])


text \<open>
  C8 (integer setters). The log-level setter takes \<open>0\<close> and \<open>9\<close> and rejects
  \<open>-1\<close>, \<open>10\<close> (range message) and \<open>5x\<close> (invalid-number message); the
  pool-size and the idle-time setters reject \<open>0\<close> and take \<open>1\<close>. In general each
  of the three succeeds exactly when \<open>strtol\<close> leaves nothing of the argument over
  and the number is within the bounds, and returns one of its two fixed messages
  otherwise. On a non-empty string of digits that means: exactly when the number
  written is within the bounds; a minus sign in front leaves only \<open>-0\<close> for the log
  level; and anything that is not a digit after the digits gives the invalid-number
  message.
\<close>

theorem integer_setters_accept_exactly_in_bounds:
  "cmd_passenger_log_level cfg ''0'' = (None, cfg\<lparr>logLevel := 0\<rparr>)
   \<and> cmd_passenger_log_level cfg ''9'' = (None, cfg\<lparr>logLevel := 9\<rparr>)
   \<and> cmd_passenger_log_level cfg ''-1''
       = (Some ''Value for PassengerLogLevel must be between 0 and 9.'', cfg)
   \<and> cmd_passenger_log_level cfg ''10''
       = (Some ''Value for PassengerLogLevel must be between 0 and 9.'', cfg)
   \<and> cmd_passenger_log_level cfg ''5x''
       = (Some ''Invalid number specified for PassengerLogLevel.'', cfg)
   \<and> cmd_passenger_max_pool_size cfg ''0''
       = (Some ''Value for PassengerMaxPoolSize must be greater than 0.'', cfg)
   \<and> cmd_passenger_max_pool_size cfg ''1''
       = (None, cfg\<lparr>maxPoolSize := 1, maxPoolSizeSpecified := True\<rparr>)
   \<and> cmd_passenger_pool_idle_time cfg ''0''
       = (Some ''Value for PassengerPoolIdleTime must be greater than 0.'', cfg)
   \<and> cmd_passenger_pool_idle_time cfg ''1''
       = (None, cfg\<lparr>poolIdleTime := 1, poolIdleTimeSpecified := True\<rparr>)
   \<and> (fst (cmd_passenger_log_level cfg arg) = None)
       = (snd (strtol arg) = [] \<and> 0 \<le> fst (strtol arg) \<and> fst (strtol arg) \<le> 9)
   \<and> (fst (cmd_passenger_max_pool_size cfg arg) = None)
       = (snd (strtol arg) = [] \<and> 0 < fst (strtol arg))
   \<and> (fst (cmd_passenger_pool_idle_time cfg arg) = None)
       = (snd (strtol arg) = [] \<and> 0 < fst (strtol arg))
   \<and> fst (cmd_passenger_log_level cfg arg)
       \<in> {None, Some ''Invalid number specified for PassengerLogLevel.'',
           Some ''Value for PassengerLogLevel must be between 0 and 9.''}
   \<and> fst (cmd_passenger_max_pool_size cfg arg)
       \<in> {None, Some ''Invalid number specified for PassengerMaxPoolSize.'',
           Some ''Value for PassengerMaxPoolSize must be greater than 0.''}
   \<and> fst (cmd_passenger_pool_idle_time cfg arg)
       \<in> {None, Some ''Invalid number specified for PassengerPoolIdleTime.'',
           Some ''Value for PassengerPoolIdleTime must be greater than 0.''}
   \<and> (ds \<noteq> [] \<and> list_all isdigit ds \<longrightarrow>
         (fst (cmd_passenger_log_level cfg ds) = None) = (digits_value ds \<le> 9)
         \<and> (fst (cmd_passenger_max_pool_size cfg ds) = None) = (0 < digits_value ds)
         \<and> (fst (cmd_passenger_pool_idle_time cfg ds) = None) = (0 < digits_value ds)
         \<and> (fst (cmd_passenger_log_level cfg (CHR ''-'' # ds)) = None) = (digits_value ds = 0)
         \<and> fst (cmd_passenger_max_pool_size cfg (CHR ''-'' # ds))
             = Some ''Value for PassengerMaxPoolSize must be greater than 0.''
         \<and> fst (cmd_passenger_pool_idle_time cfg (CHR ''-'' # ds))
             = Some ''Value for PassengerPoolIdleTime must be greater than 0.'')
   \<and> (ds \<noteq> [] \<and> list_all isdigit ds \<and> \<not> isdigit c \<longrightarrow>
         cmd_passenger_log_level cfg (ds @ c # rest)
           = (Some ''Invalid number specified for PassengerLogLevel.'', cfg)
         \<and> cmd_passenger_max_pool_size cfg (ds @ c # rest)
           = (Some ''Invalid number specified for PassengerMaxPoolSize.'', cfg)
         \<and> cmd_passenger_pool_idle_time cfg (ds @ c # rest)
           = (Some ''Invalid number specified for PassengerPoolIdleTime.'', cfg))"
  by (intro conjI impI setters_boundary_values setters_success_iff setters_failure_message;
      (elim conjE)?;
      (rule setters_on_digits setters_on_negative_digits setters_on_trailing; assumption))

theorem integer_setters_accept_exactly_in_bounds_witness:
  "''42'' \<noteq> [] \<and> list_all isdigit ''42'' \<and> \<not> isdigit CHR ''x''
   \<and> digits_value ''42'' = 42
   \<and> fst (cmd_passenger_log_level passenger_config_create_server ''42'') \<noteq> None
   \<and> fst (cmd_passenger_max_pool_size passenger_config_create_server ''42'') = None
   \<and> fst (cmd_passenger_pool_idle_time passenger_config_create_server ''42'') = None
   \<and> fst (cmd_passenger_max_pool_size passenger_config_create_server ''-42'') \<noteq> None
   \<and> cmd_passenger_max_pool_size passenger_config_create_server ''42x7''
       = (Some ''Invalid number specified for PassengerMaxPoolSize.'',
          passenger_config_create_server)"
proof -
  have h: "''42'' \<noteq> [] \<and> list_all isdigit ''42''"
    by (simp add: isdigit_def)
  have x: "\<not> isdigit CHR ''x''"
    by (simp add: isdigit_def)
  have v: "digits_value ''42'' = 42"
    by (simp add: digits_value_def digit_val_def)
  note w = integer_setters_accept_exactly_in_bounds
             [of passenger_config_create_server "''42''" "''42''" "CHR ''x''" "''7''"]
  from w h have a:
    "(fst (cmd_passenger_log_level passenger_config_create_server ''42'') = None)
       = (digits_value ''42'' \<le> 9)"
    "(fst (cmd_passenger_max_pool_size passenger_config_create_server ''42'') = None)
       = (0 < digits_value ''42'')"
    "(fst (cmd_passenger_pool_idle_time passenger_config_create_server ''42'') = None)
       = (0 < digits_value ''42'')"
    "fst (cmd_passenger_max_pool_size passenger_config_create_server (CHR ''-'' # ''42''))
       = Some ''Value for PassengerMaxPoolSize must be greater than 0.''"
    by blast+
  from w h x have b:
    "cmd_passenger_max_pool_size passenger_config_create_server (''42'' @ CHR ''x'' # ''7'')
       = (Some ''Invalid number specified for PassengerMaxPoolSize.'',
          passenger_config_create_server)"
    by blast
  from a b h x v show ?thesis by simp
qed

lemma max_instances_negative_one:
  "cmd_passenger_max_instances_per_app cfg ''-1''
     = (None, cfg\<lparr>maxInstancesPerApp := 2 ^ 32 - 1, maxInstancesPerAppSpecified := True\<rparr>)"
  by (simp add: cmd_passenger_max_instances_per_app_def strtol_eval)

lemma pool_setters_negative_one:
  "cmd_passenger_max_pool_size cfg ''-1''
     = (Some ''Value for PassengerMaxPoolSize must be greater than 0.'', cfg)"
  "cmd_passenger_pool_idle_time cfg ''-1''
     = (Some ''Value for PassengerPoolIdleTime must be greater than 0.'', cfg)"
  by (simp_all add: cmd_passenger_max_pool_size_def cmd_passenger_pool_idle_time_def strtol_eval)

lemma uint_max: "uint (2 ^ 32 - 1 :: uint) = 4294967295"
  by simp

text \<open>
  C10 (no range check on the per-application instance cap). Whenever \<open>strtol\<close>
  leaves nothing of the argument over, the setter succeeds, stores the number cast to
  \<open>unsigned int\<close> (the number modulo \<open>2 ^ 32\<close>) and sets the flag; that holds for
  every string of digits with or without a minus sign, and \<open>-1\<close> is stored as
  \<open>2 ^ 32 - 1\<close>. The pool-size and the idle-time setters reject \<open>-1\<close>.
\<close>

theorem max_instances_per_app_no_range_check:
  "(snd (strtol arg) = [] \<longrightarrow>
      cmd_passenger_max_instances_per_app cfg arg
        = (None, cfg\<lparr>maxInstancesPerApp := word_of_int (fst (strtol arg)),
                        maxInstancesPerAppSpecified := True\<rparr>)
      \<and> uint (maxInstancesPerApp (snd (cmd_passenger_max_instances_per_app cfg arg)))
          = fst (strtol arg) mod 2 ^ 32)
   \<and> (ds \<noteq> [] \<and> list_all isdigit ds \<longrightarrow>
        cmd_passenger_max_instances_per_app cfg (CHR ''-'' # ds)
          = (None, cfg\<lparr>maxInstancesPerApp := word_of_int (clamp_long (- digits_value ds)),
                          maxInstancesPerAppSpecified := True\<rparr>)
        \<and> cmd_passenger_max_instances_per_app cfg ds
          = (None, cfg\<lparr>maxInstancesPerApp := word_of_int (clamp_long (digits_value ds)),
                          maxInstancesPerAppSpecified := True\<rparr>))
   \<and> cmd_passenger_max_instances_per_app cfg ''-1''
       = (None, cfg\<lparr>maxInstancesPerApp := 2 ^ 32 - 1, maxInstancesPerAppSpecified := True\<rparr>)
   \<and> uint (2 ^ 32 - 1 :: uint) = 4294967295
   \<and> cmd_passenger_max_pool_size cfg ''-1''
       = (Some ''Value for PassengerMaxPoolSize must be greater than 0.'', cfg)
   \<and> cmd_passenger_pool_idle_time cfg ''-1''
       = (Some ''Value for PassengerPoolIdleTime must be greater than 0.'', cfg)"
proof (intro conjI impI)
  assume e: "snd (strtol arg) = []"
  then show "cmd_passenger_max_instances_per_app cfg arg
        = (None, cfg\<lparr>maxInstancesPerApp := word_of_int (fst (strtol arg)),
                        maxInstancesPerAppSpecified := True\<rparr>)"
    by (simp add: max_instances_per_app_cases)
  from e show "uint (maxInstancesPerApp (snd (cmd_passenger_max_instances_per_app cfg arg)))
          = fst (strtol arg) mod 2 ^ 32"
    by (simp add: max_instances_per_app_cases uint_word_of_int)
next
  assume d: "ds \<noteq> [] \<and> list_all isdigit ds"
  then show "cmd_passenger_max_instances_per_app cfg (CHR ''-'' # ds)
          = (None, cfg\<lparr>maxInstancesPerApp := word_of_int (clamp_long (- digits_value ds)),
                          maxInstancesPerAppSpecified := True\<rparr>)"
    by (simp add: max_instances_per_app_cases strtol_negative_digit_string)
  from d show "cmd_passenger_max_instances_per_app cfg ds
          = (None, cfg\<lparr>maxInstancesPerApp := word_of_int (clamp_long (digits_value ds)),
                          maxInstancesPerAppSpecified := True\<rparr>)"
    by (simp add: max_instances_per_app_cases strtol_digit_string)
qed (rule max_instances_negative_one uint_max pool_setters_negative_one)+

theorem max_instances_per_app_no_range_check_witness:
  "snd (strtol ''-7'') = [] \<and> fst (strtol ''-7'') = - 7
   \<and> ''7'' \<noteq> [] \<and> list_all isdigit ''7''
   \<and> cmd_passenger_max_instances_per_app passenger_config_create_server ''-7''
       = (None, passenger_config_create_server
                  \<lparr>maxInstancesPerApp := 4294967289, maxInstancesPerAppSpecified := True\<rparr>)
   \<and> uint (maxInstancesPerApp
              (snd (cmd_passenger_max_instances_per_app passenger_config_create_server ''-7'')))
       = 4294967289"
proof -
  have s: "snd (strtol ''-7'') = []" "fst (strtol ''-7'') = - 7"
    by (simp_all add: strtol_eval)
  have d: "''7'' \<noteq> [] \<and> list_all isdigit ''7''"
    by (simp add: isdigit_def)
  note w = max_instances_per_app_no_range_check
             [of "''-7''" passenger_config_create_server "''7''"]
  from w s(1) have a:
    "cmd_passenger_max_instances_per_app passenger_config_create_server ''-7''
        = (None, passenger_config_create_server
                   \<lparr>maxInstancesPerApp := word_of_int (fst (strtol ''-7'')),
                    maxInstancesPerAppSpecified := True\<rparr>)"
    "uint (maxInstancesPerApp
             (snd (cmd_passenger_max_instances_per_app passenger_config_create_server ''-7'')))
          = fst (strtol ''-7'') mod 2 ^ 32"
    by blast+
  from a s d show ?thesis by simp
qed

lemma server_setters_atomic:
  "atomic_outcome cfg (cmd_passenger_root cfg arg) (\<lambda>c c'. c\<lparr>root := root c'\<rparr>) {}"
  "atomic_outcome cfg (cmd_passenger_ruby cfg arg) (\<lambda>c c'. c\<lparr>ruby := ruby c'\<rparr>) {}"
  "atomic_outcome cfg (cmd_passenger_default_user cfg arg)
     (\<lambda>c c'. c\<lparr>defaultUser := defaultUser c'\<rparr>) {}"
  "atomic_outcome cfg (cmd_passenger_user_switching cfg flag)
     (\<lambda>c c'. c\<lparr>userSwitching := userSwitching c', userSwitchingSpecified := True\<rparr>) {}"
  by (simp_all add: atomic_outcome_def cmd_passenger_root_def cmd_passenger_ruby_def
      cmd_passenger_default_user_def cmd_passenger_user_switching_def)

lemma server_integer_setters_atomic:
  "atomic_outcome cfg (cmd_passenger_log_level cfg arg)
     (\<lambda>c c'. c\<lparr>logLevel := logLevel c'\<rparr>)
     {''Invalid number specified for PassengerLogLevel.'',
      ''Value for PassengerLogLevel must be between 0 and 9.''}"
  "atomic_outcome cfg (cmd_passenger_max_pool_size cfg arg)
     (\<lambda>c c'. c\<lparr>maxPoolSize := maxPoolSize c', maxPoolSizeSpecified := True\<rparr>)
     {''Invalid number specified for PassengerMaxPoolSize.'',
      ''Value for PassengerMaxPoolSize must be greater than 0.''}"
  "atomic_outcome cfg (cmd_passenger_max_instances_per_app cfg arg)
     (\<lambda>c c'. c\<lparr>maxInstancesPerApp := maxInstancesPerApp c',
               maxInstancesPerAppSpecified := True\<rparr>)
     {''Invalid number specified for PassengerMaxInstancesPerApp.''}"
  "atomic_outcome cfg (cmd_passenger_pool_idle_time cfg arg)
     (\<lambda>c c'. c\<lparr>poolIdleTime := poolIdleTime c', poolIdleTimeSpecified := True\<rparr>)
     {''Invalid number specified for PassengerPoolIdleTime.'',
      ''Value for PassengerPoolIdleTime must be greater than 0.''}"
  by (simp_all add: atomic_outcome_def log_level_cases max_pool_size_cases
      max_instances_per_app_cases pool_idle_time_cases)

lemma dir_flag_setters_atomic:
  "atomic_outcome dcfg (cmd_passenger_use_global_queue dcfg flag)
     (\<lambda>c c'. c\<lparr>useGlobalQueue := useGlobalQueue c'\<rparr>) {}"
  "atomic_outcome dcfg (cmd_passenger_high_performance dcfg flag)
     (\<lambda>c c'. c\<lparr>highPerformance := highPerformance c'\<rparr>) {}"
  "atomic_outcome dcfg (cmd_passenger_enabled dcfg flag)
     (\<lambda>c c'. c\<lparr>enabled := enabled c'\<rparr>) {}"
  "atomic_outcome dcfg (cmd_rails_auto_detect dcfg flag)
     (\<lambda>c c'. c\<lparr>autoDetectRails := autoDetectRails c'\<rparr>) {}"
  "atomic_outcome dcfg (cmd_rails_allow_mod_rewrite dcfg flag)
     (\<lambda>c c'. c\<lparr>allowModRewrite := allowModRewrite c'\<rparr>) {}"
  "atomic_outcome dcfg (cmd_rack_auto_detect dcfg flag)
     (\<lambda>c c'. c\<lparr>autoDetectRack := autoDetectRack c'\<rparr>) {}"
  "atomic_outcome dcfg (cmd_wsgi_auto_detect dcfg flag)
     (\<lambda>c c'. c\<lparr>autoDetectWSGI := autoDetectWSGI c'\<rparr>) {}"
  by (simp_all add: atomic_outcome_def cmd_passenger_use_global_queue_def
      cmd_passenger_high_performance_def cmd_passenger_enabled_def cmd_rails_auto_detect_def
      cmd_rails_allow_mod_rewrite_def cmd_rack_auto_detect_def cmd_wsgi_auto_detect_def)

lemma dir_string_setters_atomic:
  "atomic_outcome dcfg (cmd_rails_base_uri dcfg arg)
     (\<lambda>c c'. c\<lparr>railsBaseURIs := railsBaseURIs c'\<rparr>) {}"
  "atomic_outcome dcfg (cmd_rack_base_uri dcfg arg)
     (\<lambda>c c'. c\<lparr>rackBaseURIs := rackBaseURIs c'\<rparr>) {}"
  "atomic_outcome dcfg (cmd_rails_env dcfg arg) (\<lambda>c c'. c\<lparr>railsEnv := railsEnv c'\<rparr>) {}"
  "atomic_outcome dcfg (cmd_rack_env dcfg arg) (\<lambda>c c'. c\<lparr>rackEnv := rackEnv c'\<rparr>) {}"
  "atomic_outcome dcfg (cmd_rails_app_root dcfg arg)
     (\<lambda>c c'. c\<lparr>railsAppRoot := railsAppRoot c'\<rparr>) {}"
  "atomic_outcome dcfg (cmd_rails_spawn_method dcfg arg)
     (\<lambda>c c'. c\<lparr>spawnMethod := spawnMethod c'\<rparr>)
     {''RailsSpawnMethod may only be 'smart', 'smart-lv2' or 'conservative'.''}"
  by (simp_all add: atomic_outcome_def cmd_rails_base_uri_def cmd_rack_base_uri_def
      cmd_rails_env_def cmd_rack_env_def cmd_rails_app_root_def cmd_rails_spawn_method_def)

lemma dir_integer_setters_atomic:
  "atomic_outcome dcfg (cmd_passenger_max_requests dcfg arg)
     (\<lambda>c c'. c\<lparr>maxRequests := maxRequests c', maxRequestsSpecified := True\<rparr>)
     {''Invalid number specified for PassengerMaxRequests.'',
      ''Value for PassengerMaxRequests must be greater than or equal to 0.''}"
  "atomic_outcome dcfg (cmd_rails_framework_spawner_idle_time dcfg arg)
     (\<lambda>c c'. c\<lparr>frameworkSpawnerTimeout := frameworkSpawnerTimeout c'\<rparr>)
     {''Invalid number specified for RailsFrameworkSpawnerIdleTime.'',
      ''Value for RailsFrameworkSpawnerIdleTime must be at least 0.''}"
  "atomic_outcome dcfg (cmd_rails_app_spawner_idle_time dcfg arg)
     (\<lambda>c c'. c\<lparr>appSpawnerTimeout := appSpawnerTimeout c'\<rparr>)
     {''Invalid number specified for RailsAppSpawnerIdleTime.'',
      ''Value for RailsAppSpawnerIdleTime must be at least 0.''}"
  by (simp_all add: atomic_outcome_def cmd_passenger_max_requests_def
      cmd_rails_framework_spawner_idle_time_def cmd_rails_app_spawner_idle_time_def
      split: prod.splits)

lemma spawn_server_no_mutation:
  "fst (cmd_rails_spawn_server err dcfg arg) = None"
  "fst (snd (cmd_rails_spawn_server err dcfg arg)) = dcfg"
  by (simp_all add: cmd_rails_spawn_server_def)

lemma spawn_method_turbo:
  "cmd_rails_spawn_method dcfg ''turbo''
     = (Some ''RailsSpawnMethod may only be 'smart', 'smart-lv2' or 'conservative'.'', dcfg)"
  "spawnMethod (snd (cmd_rails_spawn_method passenger_config_create_dir ''turbo'')) = SM_UNSET"
  by (simp_all add: cmd_rails_spawn_method_def passenger_config_create_dir_def)


lemma server_setters_assign:
  "fst (cmd_passenger_root cfg arg) = None"
  "root (snd (cmd_passenger_root cfg arg)) = Some arg"
  "fst (cmd_passenger_ruby cfg arg) = None"
  "ruby (snd (cmd_passenger_ruby cfg arg)) = Some arg"
  "fst (cmd_passenger_default_user cfg arg) = None"
  "defaultUser (snd (cmd_passenger_default_user cfg arg)) = Some arg"
  "fst (cmd_passenger_user_switching cfg flag) = None"
  "userSwitching (snd (cmd_passenger_user_switching cfg flag)) = (flag \<noteq> 0)"
  "userSwitchingSpecified (snd (cmd_passenger_user_switching cfg flag))"
  by (simp_all add: cmd_passenger_root_def cmd_passenger_ruby_def
      cmd_passenger_default_user_def cmd_passenger_user_switching_def)

lemma max_requests_cases:
  "cmd_passenger_max_requests dcfg arg =
     (if snd (strtol arg) \<noteq> []
      then (Some ''Invalid number specified for PassengerMaxRequests.'', dcfg)
      else if fst (strtol arg) < 0
      then (Some ''Value for PassengerMaxRequests must be greater than or equal to 0.'', dcfg)
      else (None, dcfg\<lparr>maxRequests := word_of_int (fst (strtol arg)),
                        maxRequestsSpecified := True\<rparr>))"
  by (simp add: cmd_passenger_max_requests_def split: prod.splits)

lemma framework_spawner_idle_time_cases:
  "cmd_rails_framework_spawner_idle_time dcfg arg =
     (if snd (strtol arg) \<noteq> []
      then (Some ''Invalid number specified for RailsFrameworkSpawnerIdleTime.'', dcfg)
      else if fst (strtol arg) < 0
      then (Some ''Value for RailsFrameworkSpawnerIdleTime must be at least 0.'', dcfg)
      else (None, dcfg\<lparr>frameworkSpawnerTimeout := word_of_int (fst (strtol arg))\<rparr>))"
  by (simp add: cmd_rails_framework_spawner_idle_time_def split: prod.splits)

lemma app_spawner_idle_time_cases:
  "cmd_rails_app_spawner_idle_time dcfg arg =
     (if snd (strtol arg) \<noteq> []
      then (Some ''Invalid number specified for RailsAppSpawnerIdleTime.'', dcfg)
      else if fst (strtol arg) < 0
      then (Some ''Value for RailsAppSpawnerIdleTime must be at least 0.'', dcfg)
      else (None, dcfg\<lparr>appSpawnerTimeout := word_of_int (fst (strtol arg))\<rparr>))"
  by (simp add: cmd_rails_app_spawner_idle_time_def split: prod.splits)

lemma integer_setters_succeed_iff:
  "(fst (cmd_passenger_max_instances_per_app cfg arg) = None) = (snd (strtol arg) = [])"
  "(fst (cmd_passenger_max_requests dcfg arg) = None)
     = (snd (strtol arg) = [] \<and> 0 \<le> fst (strtol arg))"
  "(fst (cmd_rails_framework_spawner_idle_time dcfg arg) = None)
     = (snd (strtol arg) = [] \<and> 0 \<le> fst (strtol arg))"
  "(fst (cmd_rails_app_spawner_idle_time dcfg arg) = None)
     = (snd (strtol arg) = [] \<and> 0 \<le> fst (strtol arg))"
  by (auto simp: max_instances_per_app_cases max_requests_cases
      framework_spawner_idle_time_cases app_spawner_idle_time_cases)

lemma integer_setters_assign:
  "fst (cmd_passenger_log_level cfg arg) = None \<Longrightarrow>
     logLevel (snd (cmd_passenger_log_level cfg arg)) = word_of_int (fst (strtol arg))"
  "fst (cmd_passenger_max_pool_size cfg arg) = None \<Longrightarrow>
     maxPoolSize (snd (cmd_passenger_max_pool_size cfg arg)) = word_of_int (fst (strtol arg))"
  "fst (cmd_passenger_max_pool_size cfg arg) = None \<Longrightarrow>
     maxPoolSizeSpecified (snd (cmd_passenger_max_pool_size cfg arg))"
  "fst (cmd_passenger_max_instances_per_app cfg arg) = None \<Longrightarrow>
     maxInstancesPerApp (snd (cmd_passenger_max_instances_per_app cfg arg))
       = word_of_int (fst (strtol arg))"
  "fst (cmd_passenger_max_instances_per_app cfg arg) = None \<Longrightarrow>
     maxInstancesPerAppSpecified (snd (cmd_passenger_max_instances_per_app cfg arg))"
  "fst (cmd_passenger_pool_idle_time cfg arg) = None \<Longrightarrow>
     poolIdleTime (snd (cmd_passenger_pool_idle_time cfg arg)) = word_of_int (fst (strtol arg))"
  "fst (cmd_passenger_pool_idle_time cfg arg) = None \<Longrightarrow>
     poolIdleTimeSpecified (snd (cmd_passenger_pool_idle_time cfg arg))"
  "fst (cmd_passenger_max_requests dcfg arg) = None \<Longrightarrow>
     maxRequests (snd (cmd_passenger_max_requests dcfg arg)) = word_of_int (fst (strtol arg))"
  "fst (cmd_passenger_max_requests dcfg arg) = None \<Longrightarrow>
     maxRequestsSpecified (snd (cmd_passenger_max_requests dcfg arg))"
  "fst (cmd_rails_framework_spawner_idle_time dcfg arg) = None \<Longrightarrow>
     frameworkSpawnerTimeout (snd (cmd_rails_framework_spawner_idle_time dcfg arg))
       = word_of_int (fst (strtol arg))"
  "fst (cmd_rails_app_spawner_idle_time dcfg arg) = None \<Longrightarrow>
     appSpawnerTimeout (snd (cmd_rails_app_spawner_idle_time dcfg arg))
       = word_of_int (fst (strtol arg))"
  by (simp_all add: log_level_cases max_pool_size_cases max_instances_per_app_cases
      pool_idle_time_cases max_requests_cases framework_spawner_idle_time_cases
      app_spawner_idle_time_cases split: if_splits)

lemma clamp_long_small: "0 \<le> v \<Longrightarrow> v \<le> 9 \<Longrightarrow> clamp_long v = v"
  by (simp add: clamp_long_def LONG_MAX_def LONG_MIN_def)

lemma integer_setters_on_digits_assign:
  assumes "ds \<noteq> []" "list_all isdigit ds"
  shows "digits_value ds \<le> 9 \<Longrightarrow>
           cmd_passenger_log_level cfg ds
             = (None, cfg\<lparr>logLevel := word_of_int (digits_value ds)\<rparr>)"
    and "0 < digits_value ds \<Longrightarrow>
           cmd_passenger_max_pool_size cfg ds
             = (None, cfg\<lparr>maxPoolSize := word_of_int (clamp_long (digits_value ds)),
                             maxPoolSizeSpecified := True\<rparr>)"
    and "cmd_passenger_max_instances_per_app cfg ds
             = (None, cfg\<lparr>maxInstancesPerApp := word_of_int (clamp_long (digits_value ds)),
                             maxInstancesPerAppSpecified := True\<rparr>)"
    and "0 < digits_value ds \<Longrightarrow>
           cmd_passenger_pool_idle_time cfg ds
             = (None, cfg\<lparr>poolIdleTime := word_of_int (clamp_long (digits_value ds)),
                             poolIdleTimeSpecified := True\<rparr>)"
    and "cmd_passenger_max_requests dcfg ds
             = (None, dcfg\<lparr>maxRequests := word_of_int (clamp_long (digits_value ds)),
                              maxRequestsSpecified := True\<rparr>)"
    and "cmd_rails_framework_spawner_idle_time dcfg ds
             = (None, dcfg\<lparr>frameworkSpawnerTimeout
                               := word_of_int (clamp_long (digits_value ds))\<rparr>)"
    and "cmd_rails_app_spawner_idle_time dcfg ds
             = (None, dcfg\<lparr>appSpawnerTimeout := word_of_int (clamp_long (digits_value ds))\<rparr>)"
  using digits_value_nonneg[OF assms(2)]
  by (simp_all add: log_level_cases max_pool_size_cases max_instances_per_app_cases
      pool_idle_time_cases max_requests_cases framework_spawner_idle_time_cases
      app_spawner_idle_time_cases strtol_digit_string[OF assms] clamp_long_bounds
      clamp_long_small)

lemma dir_flag_setters_assign:
  "fst (cmd_passenger_use_global_queue dcfg flag) = None"
  "useGlobalQueue (snd (cmd_passenger_use_global_queue dcfg flag))
     = (if flag \<noteq> 0 then ENABLED else DISABLED)"
  "fst (cmd_passenger_high_performance dcfg flag) = None"
  "highPerformance (snd (cmd_passenger_high_performance dcfg flag))
     = (if flag \<noteq> 0 then ENABLED else DISABLED)"
  "fst (cmd_passenger_enabled dcfg flag) = None"
  "enabled (snd (cmd_passenger_enabled dcfg flag)) = (if flag \<noteq> 0 then ENABLED else DISABLED)"
  "fst (cmd_rails_auto_detect dcfg flag) = None"
  "autoDetectRails (snd (cmd_rails_auto_detect dcfg flag))
     = (if flag \<noteq> 0 then ENABLED else DISABLED)"
  "fst (cmd_rails_allow_mod_rewrite dcfg flag) = None"
  "allowModRewrite (snd (cmd_rails_allow_mod_rewrite dcfg flag))
     = (if flag \<noteq> 0 then ENABLED else DISABLED)"
  "fst (cmd_rack_auto_detect dcfg flag) = None"
  "autoDetectRack (snd (cmd_rack_auto_detect dcfg flag))
     = (if flag \<noteq> 0 then ENABLED else DISABLED)"
  "fst (cmd_wsgi_auto_detect dcfg flag) = None"
  "autoDetectWSGI (snd (cmd_wsgi_auto_detect dcfg flag))
     = (if flag \<noteq> 0 then ENABLED else DISABLED)"
  by (simp_all add: cmd_passenger_use_global_queue_def cmd_passenger_high_performance_def
      cmd_passenger_enabled_def cmd_rails_auto_detect_def cmd_rails_allow_mod_rewrite_def
      cmd_rack_auto_detect_def cmd_wsgi_auto_detect_def)

lemma dir_string_setters_assign:
  "fst (cmd_rails_base_uri dcfg arg) = None"
  "set (railsBaseURIs (snd (cmd_rails_base_uri dcfg arg))) = insert arg (set (railsBaseURIs dcfg))"
  "fst (cmd_rack_base_uri dcfg arg) = None"
  "set (rackBaseURIs (snd (cmd_rack_base_uri dcfg arg))) = insert arg (set (rackBaseURIs dcfg))"
  "fst (cmd_rails_env dcfg arg) = None"
  "railsEnv (snd (cmd_rails_env dcfg arg)) = Some arg"
  "fst (cmd_rack_env dcfg arg) = None"
  "rackEnv (snd (cmd_rack_env dcfg arg)) = Some arg"
  "fst (cmd_rails_app_root dcfg arg) = None"
  "railsAppRoot (snd (cmd_rails_app_root dcfg arg)) = Some arg"
  by (simp_all add: cmd_rails_base_uri_def cmd_rack_base_uri_def cmd_rails_env_def
      cmd_rack_env_def cmd_rails_app_root_def set_set_insert)

lemma spawn_method_assign:
  "(fst (cmd_rails_spawn_method dcfg arg) = None)
     = (arg = ''smart'' \<or> arg = ''smart-lv2'' \<or> arg = ''conservative'')"
  "spawnMethod (snd (cmd_rails_spawn_method dcfg ''smart'')) = SM_SMART"
  "spawnMethod (snd (cmd_rails_spawn_method dcfg ''smart-lv2'')) = SM_SMART_LV2"
  "spawnMethod (snd (cmd_rails_spawn_method dcfg ''conservative'')) = SM_CONSERVATIVE"
  by (simp_all add: cmd_rails_spawn_method_def)

text \<open>
  C9 (setters are atomic on failure). Every handler either succeeds and leaves a record
  that differs from the one it was given in its own field only (and in that field's
  explicit-set flag, then true), or returns one of its fixed messages and the record
  as it was. On success the field holds what the argument says: the string itself, the
  tri-state of the flag argument, the set with the argument inserted, the spawn method
  that the argument names, or the number that \<open>strtol\<close> read, cast to the field's
  type; the integer setters succeed exactly when the argument is consumed whole and the
  number is within the setter's bounds, and on a non-empty string of digits the number
  stored is the number written (limited to \<open>long\<close>). The handler of the obsolete
  \<open>RailsSpawnServer\<close> succeeds and leaves the record as it was. \<open>RailsSpawnMethod turbo\<close>
  is rejected with the message that lists the three valid choices, and the spawn method
  of a fresh record stays \<open>SM_UNSET\<close>.
\<close>

theorem setters_atomic_on_failure:
  "atomic_outcome cfg (cmd_passenger_root cfg arg) (\<lambda>c c'. c\<lparr>root := root c'\<rparr>) {}
   \<and> atomic_outcome cfg (cmd_passenger_ruby cfg arg) (\<lambda>c c'. c\<lparr>ruby := ruby c'\<rparr>) {}
   \<and> atomic_outcome cfg (cmd_passenger_default_user cfg arg)
        (\<lambda>c c'. c\<lparr>defaultUser := defaultUser c'\<rparr>) {}
   \<and> atomic_outcome cfg (cmd_passenger_user_switching cfg flag)
        (\<lambda>c c'. c\<lparr>userSwitching := userSwitching c', userSwitchingSpecified := True\<rparr>) {}
   \<and> atomic_outcome cfg (cmd_passenger_log_level cfg arg)
        (\<lambda>c c'. c\<lparr>logLevel := logLevel c'\<rparr>)
        {''Invalid number specified for PassengerLogLevel.'',
         ''Value for PassengerLogLevel must be between 0 and 9.''}
   \<and> atomic_outcome cfg (cmd_passenger_max_pool_size cfg arg)
        (\<lambda>c c'. c\<lparr>maxPoolSize := maxPoolSize c', maxPoolSizeSpecified := True\<rparr>)
        {''Invalid number specified for PassengerMaxPoolSize.'',
         ''Value for PassengerMaxPoolSize must be greater than 0.''}
   \<and> atomic_outcome cfg (cmd_passenger_max_instances_per_app cfg arg)
        (\<lambda>c c'. c\<lparr>maxInstancesPerApp := maxInstancesPerApp c',
                  maxInstancesPerAppSpecified := True\<rparr>)
        {''Invalid number specified for PassengerMaxInstancesPerApp.''}
   \<and> atomic_outcome cfg (cmd_passenger_pool_idle_time cfg arg)
        (\<lambda>c c'. c\<lparr>poolIdleTime := poolIdleTime c', poolIdleTimeSpecified := True\<rparr>)
        {''Invalid number specified for PassengerPoolIdleTime.'',
         ''Value for PassengerPoolIdleTime must be greater than 0.''}
   \<and> atomic_outcome dcfg (cmd_passenger_use_global_queue dcfg flag)
        (\<lambda>c c'. c\<lparr>useGlobalQueue := useGlobalQueue c'\<rparr>) {}
   \<and> atomic_outcome dcfg (cmd_passenger_high_performance dcfg flag)
        (\<lambda>c c'. c\<lparr>highPerformance := highPerformance c'\<rparr>) {}
   \<and> atomic_outcome dcfg (cmd_passenger_enabled dcfg flag)
        (\<lambda>c c'. c\<lparr>enabled := enabled c'\<rparr>) {}
   \<and> atomic_outcome dcfg (cmd_rails_auto_detect dcfg flag)
        (\<lambda>c c'. c\<lparr>autoDetectRails := autoDetectRails c'\<rparr>) {}
   \<and> atomic_outcome dcfg (cmd_rails_allow_mod_rewrite dcfg flag)
        (\<lambda>c c'. c\<lparr>allowModRewrite := allowModRewrite c'\<rparr>) {}
   \<and> atomic_outcome dcfg (cmd_rack_auto_detect dcfg flag)
        (\<lambda>c c'. c\<lparr>autoDetectRack := autoDetectRack c'\<rparr>) {}
   \<and> atomic_outcome dcfg (cmd_wsgi_auto_detect dcfg flag)
        (\<lambda>c c'. c\<lparr>autoDetectWSGI := autoDetectWSGI c'\<rparr>) {}
   \<and> atomic_outcome dcfg (cmd_rails_base_uri dcfg arg)
        (\<lambda>c c'. c\<lparr>railsBaseURIs := railsBaseURIs c'\<rparr>) {}
   \<and> atomic_outcome dcfg (cmd_rack_base_uri dcfg arg)
        (\<lambda>c c'. c\<lparr>rackBaseURIs := rackBaseURIs c'\<rparr>) {}
   \<and> atomic_outcome dcfg (cmd_rails_env dcfg arg) (\<lambda>c c'. c\<lparr>railsEnv := railsEnv c'\<rparr>) {}
   \<and> atomic_outcome dcfg (cmd_rack_env dcfg arg) (\<lambda>c c'. c\<lparr>rackEnv := rackEnv c'\<rparr>) {}
   \<and> atomic_outcome dcfg (cmd_rails_app_root dcfg arg)
        (\<lambda>c c'. c\<lparr>railsAppRoot := railsAppRoot c'\<rparr>) {}
   \<and> atomic_outcome dcfg (cmd_rails_spawn_method dcfg arg)
        (\<lambda>c c'. c\<lparr>spawnMethod := spawnMethod c'\<rparr>)
        {''RailsSpawnMethod may only be 'smart', 'smart-lv2' or 'conservative'.''}
   \<and> atomic_outcome dcfg (cmd_passenger_max_requests dcfg arg)
        (\<lambda>c c'. c\<lparr>maxRequests := maxRequests c', maxRequestsSpecified := True\<rparr>)
        {''Invalid number specified for PassengerMaxRequests.'',
         ''Value for PassengerMaxRequests must be greater than or equal to 0.''}
   \<and> atomic_outcome dcfg (cmd_rails_framework_spawner_idle_time dcfg arg)
        (\<lambda>c c'. c\<lparr>frameworkSpawnerTimeout := frameworkSpawnerTimeout c'\<rparr>)
        {''Invalid number specified for RailsFrameworkSpawnerIdleTime.'',
         ''Value for RailsFrameworkSpawnerIdleTime must be at least 0.''}
   \<and> atomic_outcome dcfg (cmd_rails_app_spawner_idle_time dcfg arg)
        (\<lambda>c c'. c\<lparr>appSpawnerTimeout := appSpawnerTimeout c'\<rparr>)
        {''Invalid number specified for RailsAppSpawnerIdleTime.'',
         ''Value for RailsAppSpawnerIdleTime must be at least 0.''}
   \<and> fst (cmd_rails_spawn_server err dcfg arg) = None
   \<and> fst (snd (cmd_rails_spawn_server err dcfg arg)) = dcfg
   \<and> cmd_rails_spawn_method dcfg ''turbo''
       = (Some ''RailsSpawnMethod may only be 'smart', 'smart-lv2' or 'conservative'.'', dcfg)
   \<and> spawnMethod (snd (cmd_rails_spawn_method passenger_config_create_dir ''turbo''))
       = SM_UNSET
   \<and> fst (cmd_passenger_root cfg arg) = None
   \<and> root (snd (cmd_passenger_root cfg arg)) = Some arg
   \<and> fst (cmd_passenger_ruby cfg arg) = None
   \<and> ruby (snd (cmd_passenger_ruby cfg arg)) = Some arg
   \<and> fst (cmd_passenger_default_user cfg arg) = None
   \<and> defaultUser (snd (cmd_passenger_default_user cfg arg)) = Some arg
   \<and> fst (cmd_passenger_user_switching cfg flag) = None
   \<and> userSwitching (snd (cmd_passenger_user_switching cfg flag)) = (flag \<noteq> 0)
   \<and> userSwitchingSpecified (snd (cmd_passenger_user_switching cfg flag))
   \<and> fst (cmd_passenger_use_global_queue dcfg flag) = None
   \<and> useGlobalQueue (snd (cmd_passenger_use_global_queue dcfg flag))
        = (if flag \<noteq> 0 then ENABLED else DISABLED)
   \<and> fst (cmd_passenger_high_performance dcfg flag) = None
   \<and> highPerformance (snd (cmd_passenger_high_performance dcfg flag))
        = (if flag \<noteq> 0 then ENABLED else DISABLED)
   \<and> fst (cmd_passenger_enabled dcfg flag) = None
   \<and> enabled (snd (cmd_passenger_enabled dcfg flag)) = (if flag \<noteq> 0 then ENABLED else DISABLED)
   \<and> fst (cmd_rails_auto_detect dcfg flag) = None
   \<and> autoDetectRails (snd (cmd_rails_auto_detect dcfg flag))
        = (if flag \<noteq> 0 then ENABLED else DISABLED)
   \<and> fst (cmd_rails_allow_mod_rewrite dcfg flag) = None
   \<and> allowModRewrite (snd (cmd_rails_allow_mod_rewrite dcfg flag))
        = (if flag \<noteq> 0 then ENABLED else DISABLED)
   \<and> fst (cmd_rack_auto_detect dcfg flag) = None
   \<and> autoDetectRack (snd (cmd_rack_auto_detect dcfg flag))
        = (if flag \<noteq> 0 then ENABLED else DISABLED)
   \<and> fst (cmd_wsgi_auto_detect dcfg flag) = None
   \<and> autoDetectWSGI (snd (cmd_wsgi_auto_detect dcfg flag))
        = (if flag \<noteq> 0 then ENABLED else DISABLED)
   \<and> fst (cmd_rails_base_uri dcfg arg) = None
   \<and> set (railsBaseURIs (snd (cmd_rails_base_uri dcfg arg))) = insert arg (set (railsBaseURIs dcfg))
   \<and> fst (cmd_rack_base_uri dcfg arg) = None
   \<and> set (rackBaseURIs (snd (cmd_rack_base_uri dcfg arg))) = insert arg (set (rackBaseURIs dcfg))
   \<and> fst (cmd_rails_env dcfg arg) = None
   \<and> railsEnv (snd (cmd_rails_env dcfg arg)) = Some arg
   \<and> fst (cmd_rack_env dcfg arg) = None
   \<and> rackEnv (snd (cmd_rack_env dcfg arg)) = Some arg
   \<and> fst (cmd_rails_app_root dcfg arg) = None
   \<and> railsAppRoot (snd (cmd_rails_app_root dcfg arg)) = Some arg
   \<and> (fst (cmd_rails_spawn_method dcfg arg) = None)
        = (arg = ''smart'' \<or> arg = ''smart-lv2'' \<or> arg = ''conservative'')
   \<and> spawnMethod (snd (cmd_rails_spawn_method dcfg ''smart'')) = SM_SMART
   \<and> spawnMethod (snd (cmd_rails_spawn_method dcfg ''smart-lv2'')) = SM_SMART_LV2
   \<and> spawnMethod (snd (cmd_rails_spawn_method dcfg ''conservative'')) = SM_CONSERVATIVE
   \<and> (fst (cmd_passenger_max_instances_per_app cfg arg) = None) = (snd (strtol arg) = [])
   \<and> (fst (cmd_passenger_max_requests dcfg arg) = None)
        = (snd (strtol arg) = [] \<and> 0 \<le> fst (strtol arg))
   \<and> (fst (cmd_rails_framework_spawner_idle_time dcfg arg) = None)
        = (snd (strtol arg) = [] \<and> 0 \<le> fst (strtol arg))
   \<and> (fst (cmd_rails_app_spawner_idle_time dcfg arg) = None)
        = (snd (strtol arg) = [] \<and> 0 \<le> fst (strtol arg))
   \<and> (fst (cmd_passenger_log_level cfg arg) = None \<longrightarrow>
        logLevel (snd (cmd_passenger_log_level cfg arg))
          = word_of_int (fst (strtol arg)))
   \<and> (fst (cmd_passenger_max_pool_size cfg arg) = None \<longrightarrow>
        maxPoolSize (snd (cmd_passenger_max_pool_size cfg arg))
          = word_of_int (fst (strtol arg)))
   \<and> (fst (cmd_passenger_max_pool_size cfg arg) = None \<longrightarrow>
        maxPoolSizeSpecified (snd (cmd_passenger_max_pool_size cfg arg)))
   \<and> (fst (cmd_passenger_max_instances_per_app cfg arg) = None \<longrightarrow>
        maxInstancesPerApp (snd (cmd_passenger_max_instances_per_app cfg arg))
          = word_of_int (fst (strtol arg)))
   \<and> (fst (cmd_passenger_max_instances_per_app cfg arg) = None \<longrightarrow>
        maxInstancesPerAppSpecified (snd (cmd_passenger_max_instances_per_app cfg arg)))
   \<and> (fst (cmd_passenger_pool_idle_time cfg arg) = None \<longrightarrow>
        poolIdleTime (snd (cmd_passenger_pool_idle_time cfg arg))
          = word_of_int (fst (strtol arg)))
   \<and> (fst (cmd_passenger_pool_idle_time cfg arg) = None \<longrightarrow>
        poolIdleTimeSpecified (snd (cmd_passenger_pool_idle_time cfg arg)))
   \<and> (fst (cmd_passenger_max_requests dcfg arg) = None \<longrightarrow>
        maxRequests (snd (cmd_passenger_max_requests dcfg arg))
          = word_of_int (fst (strtol arg)))
   \<and> (fst (cmd_passenger_max_requests dcfg arg) = None \<longrightarrow>
        maxRequestsSpecified (snd (cmd_passenger_max_requests dcfg arg)))
   \<and> (fst (cmd_rails_framework_spawner_idle_time dcfg arg) = None \<longrightarrow>
        frameworkSpawnerTimeout (snd (cmd_rails_framework_spawner_idle_time dcfg arg))
          = word_of_int (fst (strtol arg)))
   \<and> (fst (cmd_rails_app_spawner_idle_time dcfg arg) = None \<longrightarrow>
        appSpawnerTimeout (snd (cmd_rails_app_spawner_idle_time dcfg arg))
          = word_of_int (fst (strtol arg)))
   \<and> (ds \<noteq> [] \<and> list_all isdigit ds \<and> digits_value ds \<le> 9 \<longrightarrow>
        cmd_passenger_log_level cfg ds
          = (None, cfg\<lparr>logLevel := word_of_int (digits_value ds)\<rparr>))
   \<and> (ds \<noteq> [] \<and> list_all isdigit ds \<and> 0 < digits_value ds \<longrightarrow>
        cmd_passenger_max_pool_size cfg ds
          = (None, cfg\<lparr>maxPoolSize := word_of_int (clamp_long (digits_value ds)),
                          maxPoolSizeSpecified := True\<rparr>))
   \<and> (ds \<noteq> [] \<and> list_all isdigit ds \<longrightarrow>
        cmd_passenger_max_instances_per_app cfg ds
          = (None, cfg\<lparr>maxInstancesPerApp := word_of_int (clamp_long (digits_value ds)),
                          maxInstancesPerAppSpecified := True\<rparr>))
   \<and> (ds \<noteq> [] \<and> list_all isdigit ds \<and> 0 < digits_value ds \<longrightarrow>
        cmd_passenger_pool_idle_time cfg ds
          = (None, cfg\<lparr>poolIdleTime := word_of_int (clamp_long (digits_value ds)),
                          poolIdleTimeSpecified := True\<rparr>))
   \<and> (ds \<noteq> [] \<and> list_all isdigit ds \<longrightarrow>
        cmd_passenger_max_requests dcfg ds
          = (None, dcfg\<lparr>maxRequests := word_of_int (clamp_long (digits_value ds)),
                           maxRequestsSpecified := True\<rparr>))
   \<and> (ds \<noteq> [] \<and> list_all isdigit ds \<longrightarrow>
        cmd_rails_framework_spawner_idle_time dcfg ds
          = (None, dcfg\<lparr>frameworkSpawnerTimeout
                            := word_of_int (clamp_long (digits_value ds))\<rparr>))
   \<and> (ds \<noteq> [] \<and> list_all isdigit ds \<longrightarrow>
        cmd_rails_app_spawner_idle_time dcfg ds
          = (None, dcfg\<lparr>appSpawnerTimeout
                            := word_of_int (clamp_long (digits_value ds))\<rparr>))"
  by (intro conjI impI server_setters_atomic server_integer_setters_atomic
      dir_flag_setters_atomic dir_string_setters_atomic dir_integer_setters_atomic
      spawn_server_no_mutation spawn_method_turbo server_setters_assign
      dir_flag_setters_assign dir_string_setters_assign spawn_method_assign
      integer_setters_succeed_iff;
      (elim conjE)?;
      (rule integer_setters_assign integer_setters_on_digits_assign; assumption))


theorem setters_atomic_on_failure_witness:
  "''8'' \<noteq> [] \<and> list_all isdigit ''8'' \<and> 0 < digits_value ''8''
   \<and> cmd_passenger_max_pool_size passenger_config_create_server ''8''
       = (None, passenger_config_create_server
                  \<lparr>maxPoolSize := 8, maxPoolSizeSpecified := True\<rparr>)
   \<and> spawnMethod (snd (cmd_rails_spawn_method passenger_config_create_dir ''smart''))
       = SM_SMART
   \<and> atomic_outcome passenger_config_create_dir
         (cmd_rails_spawn_method passenger_config_create_dir ''smart'')
         (\<lambda>c c'. c\<lparr>spawnMethod := spawnMethod c'\<rparr>)
         {''RailsSpawnMethod may only be 'smart', 'smart-lv2' or 'conservative'.''}
   \<and> cmd_rails_spawn_method passenger_config_create_dir ''turbo''
       = (Some ''RailsSpawnMethod may only be 'smart', 'smart-lv2' or 'conservative'.'',
          passenger_config_create_dir)
   \<and> atomic_outcome passenger_config_create_server
         (cmd_passenger_max_pool_size passenger_config_create_server ''0'')
         (\<lambda>c c'. c\<lparr>maxPoolSize := maxPoolSize c', maxPoolSizeSpecified := True\<rparr>)
         {''Invalid number specified for PassengerMaxPoolSize.'',
          ''Value for PassengerMaxPoolSize must be greater than 0.''}"
proof -
  have v: "digits_value ''8'' = 8"
    by (simp add: digits_value_def digit_val_def)
  have d: "''8'' \<noteq> [] \<and> list_all isdigit ''8'' \<and> 0 < digits_value ''8''"
    by (simp add: isdigit_def v)
  have c: "clamp_long 8 = 8"
    by (simp add: clamp_long_def LONG_MAX_def LONG_MIN_def)
  note w1 = setters_atomic_on_failure [where cfg = passenger_config_create_server
              and dcfg = passenger_config_create_dir and arg = "''smart''" and ds = "''8''"
              and flag = 0 and err = "[]"]
  note w2 = setters_atomic_on_failure [where cfg = passenger_config_create_server
              and dcfg = passenger_config_create_dir and arg = "''0''" and ds = "''8''"
              and flag = 0 and err = "[]"]
  have p:
    "''8'' \<noteq> [] \<and> list_all isdigit ''8'' \<and> 0 < digits_value ''8'' \<longrightarrow>
       cmd_passenger_max_pool_size passenger_config_create_server ''8''
         = (None, passenger_config_create_server
                    \<lparr>maxPoolSize := word_of_int (clamp_long (digits_value ''8'')),
                     maxPoolSizeSpecified := True\<rparr>)"
    by (insert w1, elim conjE, assumption)
  have s1:
    "spawnMethod (snd (cmd_rails_spawn_method passenger_config_create_dir ''smart'')) = SM_SMART"
    by (insert w1, elim conjE, assumption)
  have s2:
    "atomic_outcome passenger_config_create_dir
         (cmd_rails_spawn_method passenger_config_create_dir ''smart'')
         (\<lambda>c c'. c\<lparr>spawnMethod := spawnMethod c'\<rparr>)
         {''RailsSpawnMethod may only be 'smart', 'smart-lv2' or 'conservative'.''}"
    by (insert w1, elim conjE, assumption)
  have s3:
    "cmd_rails_spawn_method passenger_config_create_dir ''turbo''
       = (Some ''RailsSpawnMethod may only be 'smart', 'smart-lv2' or 'conservative'.'',
          passenger_config_create_dir)"
    by (insert w1, elim conjE, assumption)
  have f:
    "atomic_outcome passenger_config_create_server
         (cmd_passenger_max_pool_size passenger_config_create_server ''0'')
         (\<lambda>c c'. c\<lparr>maxPoolSize := maxPoolSize c', maxPoolSizeSpecified := True\<rparr>)
         {''Invalid number specified for PassengerMaxPoolSize.'',
          ''Value for PassengerMaxPoolSize must be greater than 0.''}"
    by (insert w2, elim conjE, assumption)
  from p d have "cmd_passenger_max_pool_size passenger_config_create_server ''8''
         = (None, passenger_config_create_server
                    \<lparr>maxPoolSize := word_of_int (clamp_long (digits_value ''8'')),
                     maxPoolSizeSpecified := True\<rparr>)"
    by (rule mp)
  then have p': "cmd_passenger_max_pool_size passenger_config_create_server ''8''
       = (None, passenger_config_create_server
                  \<lparr>maxPoolSize := 8, maxPoolSizeSpecified := True\<rparr>)"
    by (simp only: v c) simp
  from d p' s1 s2 s3 f show ?thesis by (intro conjI) (elim conjE, assumption)+
qed

end
